theory Spec2Isabelle
  imports Main "HOL-Library.Sublist"
begin

section \<open>Strings\<close>

text \<open>
  Table names, column names and text values are modelled as Isabelle strings, over an
  alphabet of 256 characters of which the first 128 are ASCII. The case
  mappings \<open>str.lower\<close> and \<open>str.upper\<close> are the ASCII ones: a character outside
  \<open>A-Z\<close> (respectively \<open>a-z\<close>) is left as it is. Python's \<open>p in s\<close> on strings is the
  contiguous-substring test, which is \<^const>\<open>sublist\<close>.
\<close>

definition is_upper :: "char \<Rightarrow> bool" where
  "is_upper c = (65 \<le> (of_char c :: nat) \<and> (of_char c :: nat) \<le> 90)"

definition is_lower :: "char \<Rightarrow> bool" where
  "is_lower c = (97 \<le> (of_char c :: nat) \<and> (of_char c :: nat) \<le> 122)"

definition is_digit :: "char \<Rightarrow> bool" where
  "is_digit c = (48 \<le> (of_char c :: nat) \<and> (of_char c :: nat) \<le> 57)"

definition lower_char :: "char \<Rightarrow> char" where
  "lower_char c = (if is_upper c then char_of (of_char c + (32::nat)) else c)"

definition upper_char :: "char \<Rightarrow> char" where
  "upper_char c = (if is_lower c then char_of (of_char c - (32::nat)) else c)"

definition lower :: "string \<Rightarrow> string" where
  "lower s = map lower_char s"

definition upper :: "string \<Rightarrow> string" where
  "upper s = map upper_char s"

text \<open>The character class \<open>[a-zA-Z0-9_]\<close> of the two sanitization functions.\<close>

definition safe_char :: "char \<Rightarrow> bool" where
  "safe_char c = (is_lower c \<or> is_upper c \<or> is_digit c \<or> c = CHR ''_'')"

text \<open>\<open>re.sub(r'[^a-zA-Z0-9_]', '_', name)[:63]\<close>\<close>

definition safe_label :: "string \<Rightarrow> string" where
  "safe_label name = take 63 (map (\<lambda>c. if safe_char c then c else CHR ''_'') name)"

definition safe_property :: "string \<Rightarrow> string" where
  "safe_property name = take 63 (map (\<lambda>c. if safe_char c then c else CHR ''_'') name)"

section \<open>Foreign-key name patterns\<close>

text \<open>
  The list \<open>fk_patterns\<close> of \<open>_detect_fk_to_target\<close> and its test
  \<open>any(pattern in col_lower for pattern in fk_patterns)\<close>.
\<close>

definition fk_patterns :: "string \<Rightarrow> string \<Rightarrow> string list" where
  "fk_patterns target_table target_pk =
     [lower target_table @ ''_id'', lower target_table @ ''_ID'', lower target_pk]"

definition name_pattern_match :: "string \<Rightarrow> string \<Rightarrow> string \<Rightarrow> bool" where
  "name_pattern_match col target_table target_pk =
     list_ex (\<lambda>pattern. sublist pattern (lower col)) (fk_patterns target_table target_pk)"

text \<open>The two-pattern test the claim compares it with: \<open><t>_id\<close> and the lower-cased key name.\<close>

definition two_pattern_match :: "string \<Rightarrow> string \<Rightarrow> string \<Rightarrow> bool" where
  "two_pattern_match col target_table target_pk =
     (sublist (lower target_table @ ''_id'') (lower col) \<or> sublist (lower target_pk) (lower col))"

text \<open>
  \<open>str.strip()\<close> removes leading and trailing white space; the ASCII white-space characters
  of \<open>str.isspace\<close> are 9-13, 28-31 and 32.
\<close>

definition is_space :: "char \<Rightarrow> bool" where
  "is_space c = ((9 \<le> (of_char c :: nat) \<and> (of_char c :: nat) \<le> 13)
     \<or> (28 \<le> (of_char c :: nat) \<and> (of_char c :: nat) \<le> 32))"

definition strip :: "string \<Rightarrow> string" where
  "strip s = rev (dropWhile is_space (rev (dropWhile is_space s)))"

text \<open>\<open>sep.join(xs)\<close>\<close>

fun join :: "string \<Rightarrow> string list \<Rightarrow> string" where
  "join sep [] = []"
| "join sep [x] = x"
| "join sep (x # y # ys) = x @ sep @ join sep (y # ys)"

text \<open>\<open>str(i)\<close> for an integer: its decimal numeral.\<close>

definition digit_char :: "nat \<Rightarrow> char" where
  "digit_char n = char_of (48 + n mod 10)"

function str_nat :: "nat \<Rightarrow> string" where
  "str_nat n = (if n < 10 then [digit_char n] else str_nat (n div 10) @ [digit_char n])"
  by pat_completeness auto
termination
  by (relation "measure id") auto

definition str_int :: "int \<Rightarrow> string" where
  "str_int i = (if i < 0 then CHR ''-'' # str_nat (nat (- i)) else str_nat (nat i))"

section \<open>Values, tables and data frames\<close>

text \<open>
  A cell of a table is null, an integer or a text (reals and blobs are left out of the
  model). \<open>pandas\<close> represents a null as \<open>None\<close> or \<open>NaN\<close>; \<open>pd.notna\<close> and \<open>dropna\<close>
  treat both alike, and so does the model.
\<close>

datatype sqlval = Null | IntV int | TextV string

datatype error =
    FileNotFoundError string
  | DatabaseError string
  | KeyError string
  | TypeError string
  | CypherError string
  | ServiceError string

text \<open>\<open>str(e)\<close> of an exception: its message.\<close>

fun str_error :: "error \<Rightarrow> string" where
  "str_error (FileNotFoundError m) = m"
| "str_error (DatabaseError m) = m"
| "str_error (KeyError m) = m"
| "str_error (TypeError m) = m"
| "str_error (CypherError m) = m"
| "str_error (ServiceError m) = m"

text \<open>One row of \<open>PRAGMA table_info\<close>: \<open>{'name': r[1], 'type': r[2], 'pk': r[5], 'notnull': r[3]}\<close>.\<close>

record column_info =
  col_name :: string
  col_type :: string
  col_pk :: nat
  col_notnull :: nat

record table =
  table_name :: string
  table_columns :: "column_info list"
  table_rows :: "sqlval list list"

type_synonym database = "table list"

text \<open>
  What is found at a path: nothing, a file that SQLite cannot read, or a database. Table and
  column names are taken to be plain identifiers, so that the statements built by
  interpolating them parse.
\<close>

datatype source_file = NotADatabase | SqliteFile database

type_synonym filesystem = "string \<Rightarrow> source_file option"

text \<open>The result of \<open>pd.read_sql_query\<close>: column names and rows.\<close>

record dataframe =
  df_columns :: "string list"
  df_rows :: "sqlval list list"

definition find_table :: "database \<Rightarrow> string \<Rightarrow> table option" where
  "find_table conn n = find (\<lambda>t. table_name t = n) conn"

text \<open>\<open>pd.read_sql_query(f"SELECT * FROM {table_name}", conn)\<close>\<close>

definition select_all :: "database \<Rightarrow> string \<Rightarrow> error + dataframe" where
  "select_all conn n =
     (case find_table conn n of
        None \<Rightarrow> Inl (DatabaseError (''no such table: '' @ n))
      | Some t \<Rightarrow> Inr \<lparr>df_columns = map col_name (table_columns t), df_rows = table_rows t\<rparr>)"

text \<open>\<open>row[col]\<close> of a row of a data frame with columns \<open>cols\<close>.\<close>

definition row_get :: "string list \<Rightarrow> sqlval list \<Rightarrow> string \<Rightarrow> sqlval option" where
  "row_get cols row col = map_of (zip cols row) col"

text \<open>\<open>df[col]\<close> for a column of the frame.\<close>

definition df_column :: "dataframe \<Rightarrow> string \<Rightarrow> sqlval list" where
  "df_column df col =
     map (\<lambda>row. case row_get (df_columns df) row col of Some v \<Rightarrow> v | None \<Rightarrow> Null) (df_rows df)"

definition dropna :: "sqlval list \<Rightarrow> sqlval list" where
  "dropna vs = filter (\<lambda>v. v \<noteq> Null) vs"

text \<open>\<open>Series.unique()\<close>: the distinct values in order of first appearance.\<close>

definition unique :: "'a list \<Rightarrow> 'a list" where
  "unique xs = rev (remdups (rev xs))"

text \<open>\<open>Series.nunique()\<close>: the number of distinct non-null values.\<close>

definition nunique :: "sqlval list \<Rightarrow> nat" where
  "nunique vs = length (unique (dropna vs))"

section \<open>Schema introspection\<close>

record table_schema =
  ts_columns :: "column_info list"
  ts_primary_key :: "string option"
  ts_row_count :: nat
  ts_sample_data :: "sqlval list list"

record schema_info =
  si_tables :: "string list"
  si_schemas :: "(string \<times> table_schema) list"
  si_total_rows :: nat

text \<open>\<open>next((c['name'] for c in columns if c['pk']), columns[0]['name'] if columns else None)\<close>\<close>

definition detect_pk :: "column_info list \<Rightarrow> string option" where
  "detect_pk columns =
     (case find (\<lambda>c. col_pk c \<noteq> 0) columns of
        Some c \<Rightarrow> Some (col_name c)
      | None \<Rightarrow> (case columns of [] \<Rightarrow> None | c # _ \<Rightarrow> Some (col_name c)))"

text \<open>\<open>name NOT LIKE 'sqlite_%'\<close>: \<open>LIKE\<close> ignores ASCII case and \<open>_\<close> stands for any one character.\<close>

definition like_sqlite :: "string \<Rightarrow> bool" where
  "like_sqlite n = (7 \<le> length n \<and> lower (take 6 n) = ''sqlite'')"

definition analyze_table :: "table \<Rightarrow> string \<times> table_schema" where
  "analyze_table t =
     (table_name t,
      \<lparr>ts_columns = table_columns t,
       ts_primary_key = detect_pk (table_columns t),
       ts_row_count = length (table_rows t),
       ts_sample_data = take 5 (table_rows t)\<rparr>)"

text \<open>
  \<open>DynamicIngestor.ingest_all_tables\<close>. The file system is passed in and handed back, so that
  what the operation writes is part of its result.
\<close>

definition ingest_all_tables :: "filesystem \<Rightarrow> string \<Rightarrow> filesystem \<times> (error + schema_info)" where
  "ingest_all_tables fs db_path =
     (case fs db_path of
        None \<Rightarrow> (fs, Inl (FileNotFoundError (''Database not found: '' @ db_path)))
      | Some NotADatabase \<Rightarrow> (fs, Inl (DatabaseError ''file is not a database''))
      | Some (SqliteFile db) \<Rightarrow>
          (let tables = filter (\<lambda>t. \<not> like_sqlite (table_name t)) db;
               schemas = map analyze_table tables
           in (fs, Inr \<lparr>si_tables = map table_name tables,
                        si_schemas = schemas,
                        si_total_rows = sum_list (map (\<lambda>s. ts_row_count (snd s)) schemas)\<rparr>)))"

section \<open>Reference detection\<close>

text \<open>
  The verification statement of \<open>_detect_fk_to_target\<close>,
  \<open>SELECT COUNT(*) as match_count FROM {target_table} WHERE {target_pk} IN (...)\<close>, splices
  \<open>str(v)\<close> of every sampled value, unquoted, between the parentheses and hands the text to SQLite.
  SQLite is not part of the repository: what it answers is a parameter of the functions below.
  An engine takes the database, the target table, the key column and the sampled values in the
  order in which they are spliced, and returns the count in \<open>match_count\<close> or the exception
  that \<open>pd.read_sql_query\<close> raises.
\<close>

type_synonym sql_engine = "database \<Rightarrow> string \<Rightarrow> string \<Rightarrow> sqlval list \<Rightarrow> error + nat"

text \<open>\<open>pd.read_sql_query(check_query, conn)['match_count'][0]\<close>\<close>

definition check_query :: "sql_engine \<Rightarrow> database \<Rightarrow> string \<Rightarrow> string \<Rightarrow> sqlval list \<Rightarrow> error + nat" where
  "check_query sqlite conn target_table target_pk sample_vals =
     sqlite conn target_table target_pk sample_vals"

text \<open>
  \<open>match_count / len(sample_vals) > 0.3\<close>. The quotient is a double; for a sample of at most
  ten values it exceeds the double \<open>0.3\<close> exactly when the fraction exceeds three tenths
  (\<open>3 / 10\<close> is that same double), so the test is written on the integers.
\<close>

definition ratio_exceeds_threshold :: "nat \<Rightarrow> nat \<Rightarrow> bool" where
  "ratio_exceeds_threshold match_count n = (3 * n < 10 * match_count)"

text \<open>The body of the first loop for one column: \<open>Some col\<close> is \<open>return col\<close>, \<open>None\<close> goes on.\<close>

definition name_rule_step :: "sql_engine \<Rightarrow> database \<Rightarrow> dataframe \<Rightarrow> string \<Rightarrow> string \<Rightarrow> string \<Rightarrow> string option" where
  "name_rule_step sqlite conn source_df target_table target_pk col =
     (if name_pattern_match col target_table target_pk then
        (let unique_vals = unique (dropna (df_column source_df col)) in
         if length unique_vals = 0 then None
         else
           (let sample_vals = take 10 unique_vals in
            case check_query sqlite conn target_table target_pk sample_vals of
              Inl e \<Rightarrow> None
            | Inr match_count \<Rightarrow>
                if ratio_exceeds_threshold match_count (length sample_vals) then Some col else None))
      else None)"

fun name_rule :: "sql_engine \<Rightarrow> database \<Rightarrow> dataframe \<Rightarrow> string \<Rightarrow> string \<Rightarrow> string list \<Rightarrow> string option" where
  "name_rule sqlite conn source_df target_table target_pk [] = None"
| "name_rule sqlite conn source_df target_table target_pk (col # cols) =
     (case name_rule_step sqlite conn source_df target_table target_pk col of
        Some c \<Rightarrow> Some c
      | None \<Rightarrow> name_rule sqlite conn source_df target_table target_pk cols)"

text \<open>
  The body of the second loop. \<open>unique_count < total_rows * 0.1\<close> compares an integer with a
  double; the product is exact when \<open>total_rows\<close> is a multiple of ten, so the test holds
  exactly when \<open>10 * unique_count < total_rows\<close>.
\<close>

definition cardinality_rule_step :: "sql_engine \<Rightarrow> database \<Rightarrow> dataframe \<Rightarrow> string \<Rightarrow> string \<Rightarrow> string \<Rightarrow> string option" where
  "cardinality_rule_step sqlite conn source_df target_table target_pk col =
     (let unique_count = nunique (df_column source_df col);
          total_rows = length (df_rows source_df)
      in if 10 * unique_count < total_rows \<and> unique_count > 1 then
           (let sample_vals = take 5 (unique (dropna (df_column source_df col))) in
            if length sample_vals > 0 then
              (case check_query sqlite conn target_table target_pk sample_vals of
                 Inl e \<Rightarrow> None
               | Inr match_count \<Rightarrow> if match_count > 0 then Some col else None)
            else None)
         else None)"

fun cardinality_rule :: "sql_engine \<Rightarrow> database \<Rightarrow> dataframe \<Rightarrow> string \<Rightarrow> string \<Rightarrow> string list \<Rightarrow> string option" where
  "cardinality_rule sqlite conn source_df target_table target_pk [] = None"
| "cardinality_rule sqlite conn source_df target_table target_pk (col # cols) =
     (case cardinality_rule_step sqlite conn source_df target_table target_pk col of
        Some c \<Rightarrow> Some c
      | None \<Rightarrow> cardinality_rule sqlite conn source_df target_table target_pk cols)"

text \<open>\<open>_detect_fk_to_target\<close>: \<open>None\<close> is Python's \<open>None\<close>.\<close>

definition detect_fk_to_target :: "sql_engine \<Rightarrow> dataframe \<Rightarrow> string \<Rightarrow> string \<Rightarrow> database \<Rightarrow> string option" where
  "detect_fk_to_target sqlite source_df target_table target_pk conn =
     (case name_rule sqlite conn source_df target_table target_pk (df_columns source_df) of
        Some col \<Rightarrow> Some col
      | None \<Rightarrow> cardinality_rule sqlite conn source_df target_table target_pk (df_columns source_df))"


section \<open>The graph store\<close>

text \<open>
  A node has one label and a property map; a relationship joins two nodes, given by their
  positions in the node list, and has a type. The statements the converter runs are given
  their Cypher meaning: \<open>MATCH\<close> by label and property equality (a null never matches),
  \<open>MERGE\<close> creating what does not exist yet. Uniqueness constraints and transport failures
  are left out.
\<close>

record node =
  node_label :: string
  node_props :: "(string \<times> sqlval) list"

record graph =
  graph_nodes :: "node list"
  graph_rels :: "(nat \<times> string \<times> nat) list"

definition empty_graph :: graph where
  "empty_graph = \<lparr>graph_nodes = [], graph_rels = []\<rparr>"

fun set_prop :: "string \<Rightarrow> sqlval \<Rightarrow> (string \<times> sqlval) list \<Rightarrow> (string \<times> sqlval) list" where
  "set_prop k v [] = [(k, v)]"
| "set_prop k v ((k', v') # ps) = (if k = k' then (k, v) # ps else (k', v') # set_prop k v ps)"

definition get_prop :: "(string \<times> sqlval) list \<Rightarrow> string \<Rightarrow> sqlval" where
  "get_prop ps k = (case map_of ps k of Some v \<Rightarrow> v | None \<Rightarrow> Null)"

definition node_matches :: "string \<Rightarrow> string \<Rightarrow> sqlval \<Rightarrow> node \<Rightarrow> bool" where
  "node_matches label k v n = (node_label n = label \<and> v \<noteq> Null \<and> get_prop (node_props n) k = v)"

text \<open>The positions, counted from \<open>i\<close>, of the elements of a list that satisfy a test.\<close>

fun positions :: "('a \<Rightarrow> bool) \<Rightarrow> nat \<Rightarrow> 'a list \<Rightarrow> nat list" where
  "positions P i [] = []"
| "positions P i (x # xs) = (if P x then i # positions P (Suc i) xs else positions P (Suc i) xs)"

text \<open>\<open>MATCH (n:`label` {`k`: v})\<close>: the positions of the matching nodes.\<close>

definition match_nodes :: "graph \<Rightarrow> string \<Rightarrow> string \<Rightarrow> sqlval \<Rightarrow> nat list" where
  "match_nodes g label k v = positions (node_matches label k v) 0 (graph_nodes g)"

text \<open>\<open>MERGE (n:`label` {`k`: v})\<close> for a value that is not null.\<close>

definition merge_node_value :: "graph \<Rightarrow> string \<Rightarrow> string \<Rightarrow> sqlval \<Rightarrow> graph \<times> nat list" where
  "merge_node_value g label k v =
     (if match_nodes g label k v = []
      then (g\<lparr>graph_nodes := graph_nodes g @ [\<lparr>node_label = label, node_props = [(k, v)]\<rparr>]\<rparr>,
            [length (graph_nodes g)])
      else (g, match_nodes g label k v))"

text \<open>Merging on a null property value is an error of the store.\<close>

definition merge_node :: "graph \<Rightarrow> string \<Rightarrow> string \<Rightarrow> sqlval \<Rightarrow> error + graph \<times> nat list" where
  "merge_node g label k v =
     (if v = Null then Inl (CypherError ''cannot merge node using null property value'')
      else Inr (merge_node_value g label k v))"

text \<open>\<open>MERGE (a)-[:`ty`]->(b)\<close>\<close>

definition merge_rel :: "nat \<times> string \<times> nat \<Rightarrow> graph \<Rightarrow> graph" where
  "merge_rel r g = (if r \<in> set (graph_rels g) then g else g\<lparr>graph_rels := graph_rels g @ [r]\<rparr>)"

text \<open>\<open>SET n += row\<close> on the node at position \<open>i\<close>.\<close>

definition set_node_props :: "(string \<times> sqlval) list \<Rightarrow> nat \<Rightarrow> graph \<Rightarrow> graph" where
  "set_node_props row i g =
     g\<lparr>graph_nodes := (graph_nodes g)[i :=
          (graph_nodes g ! i)\<lparr>node_props := fold (\<lambda>(k, v). set_prop k v) row (node_props (graph_nodes g ! i))\<rparr>]\<rparr>"

section \<open>The converter\<close>

record table_node =
  tn_label :: string
  tn_pk :: string
  tn_count :: nat

text \<open>The clean row dictionary of \<open>_create_base_nodes\<close>: the non-null cells under sanitized keys.\<close>

definition row_dict :: "string list \<Rightarrow> sqlval list \<Rightarrow> (string \<times> sqlval) list" where
  "row_dict cols row =
     fold (\<lambda>(col, val) d. if val \<noteq> Null then set_prop (safe_property col) val d else d) (zip cols row) []"

text \<open>\<open>MERGE (n:`label` {`pk`: row.`pk`}) SET n += row\<close> for one row of \<open>UNWIND $rows\<close>.\<close>

definition merge_row :: "string \<Rightarrow> string \<Rightarrow> graph \<Rightarrow> (string \<times> sqlval) list \<Rightarrow> error + graph" where
  "merge_row label safe_pk g row =
     (case merge_node g label safe_pk (get_prop row safe_pk) of
        Inl e \<Rightarrow> Inl e
      | Inr (g', ids) \<Rightarrow> Inr (fold (set_node_props row) ids g'))"

fun merge_rows :: "string \<Rightarrow> string \<Rightarrow> graph \<Rightarrow> (string \<times> sqlval) list list \<Rightarrow> error + graph" where
  "merge_rows label safe_pk g [] = Inr g"
| "merge_rows label safe_pk g (row # rows) =
     (case merge_row label safe_pk g row of
        Inl e \<Rightarrow> Inl e
      | Inr g' \<Rightarrow> merge_rows label safe_pk g' rows)"

definition create_base_nodes :: "database \<Rightarrow> graph \<Rightarrow> string \<Rightarrow> string \<Rightarrow> string \<Rightarrow> error + graph \<times> nat" where
  "create_base_nodes conn g tname label pk =
     (let safe_pk = safe_property pk in
      case select_all conn tname of
        Inl e \<Rightarrow> Inl e
      | Inr df \<Rightarrow>
          (case merge_rows label safe_pk g (map (row_dict (df_columns df)) (df_rows df)) of
             Inl e \<Rightarrow> Inl e
           | Inr g' \<Rightarrow> Inr (g', length (filter (\<lambda>n. node_label n = label) (graph_nodes g')))))"

text \<open>
  The statement of \<open>_create_fk_rels\<close>: both \<open>MATCH\<close> clauses, then \<open>MERGE\<close> of the relationship
  for every matched pair. When either clause matches nothing, nothing is created and the
  statement still succeeds.
\<close>

definition reference_stmt ::
  "graph \<Rightarrow> string \<Rightarrow> string \<Rightarrow> sqlval \<Rightarrow> string \<Rightarrow> string \<Rightarrow> sqlval \<Rightarrow> string \<Rightarrow> graph" where
  "reference_stmt g source_label source_key source_id target_label target_key target_id rel_type =
     fold merge_rel
       (concat (map (\<lambda>s. map (\<lambda>t. (s, rel_type, t)) (match_nodes g target_label target_key target_id))
                    (match_nodes g source_label source_key source_id)))
       g"

text \<open>
  The row loop of \<open>_create_fk_rels\<close>. \<open>session.run\<close> is inside \<open>try\<close>; the statement does not
  raise in this model, so every row with a non-null target id reaches \<open>created_count += 1\<close>.
\<close>

fun fk_rows ::
  "string list \<Rightarrow> string \<Rightarrow> string \<Rightarrow> string \<Rightarrow> string \<Rightarrow> string \<Rightarrow> string \<Rightarrow>
   sqlval list list \<Rightarrow> graph \<times> nat \<Rightarrow> error + graph \<times> nat" where
  "fk_rows cols source_label source_pk target_label target_pk fk_col rel_type [] acc = Inr acc"
| "fk_rows cols source_label source_pk target_label target_pk fk_col rel_type (row # rows) (g, created_count) =
     (case row_get cols row source_pk of
        None \<Rightarrow> Inl (KeyError source_pk)
      | Some source_id \<Rightarrow>
          (let target_id = (case row_get cols row fk_col of Some v \<Rightarrow> v | None \<Rightarrow> Null) in
           if target_id \<noteq> Null then
             fk_rows cols source_label source_pk target_label target_pk fk_col rel_type rows
               (reference_stmt g source_label (safe_property source_pk) source_id
                  target_label (safe_property target_pk) target_id rel_type,
                created_count + 1)
           else
             fk_rows cols source_label source_pk target_label target_pk fk_col rel_type rows
               (g, created_count)))"

definition create_fk_rels ::
  "database \<Rightarrow> graph \<Rightarrow> string \<Rightarrow> string \<Rightarrow> string \<Rightarrow> string \<Rightarrow> string \<Rightarrow> string \<Rightarrow> error + graph \<times> nat" where
  "create_fk_rels conn g source_label source_pk target_label target_pk source_table fk_col =
     (let rel_type = ''REFERENCES_'' @ safe_label (upper fk_col) in
      case select_all conn source_table of
        Inl e \<Rightarrow> Inl e
      | Inr df \<Rightarrow>
          if fk_col \<notin> set (df_columns df) then Inl (DatabaseError (''no such column: '' @ fk_col))
          else fk_rows (df_columns df) source_label source_pk target_label target_pk fk_col rel_type
                 (filter (\<lambda>row. case row_get (df_columns df) row fk_col of
                                   Some v \<Rightarrow> v \<noteq> Null | None \<Rightarrow> False) (df_rows df))
                 (g, 0))"

text \<open>The inner loop of \<open>_create_all_fk_relationships\<close> over the targets of one source table.\<close>

fun fk_targets ::
  "sql_engine \<Rightarrow> database \<Rightarrow> (string \<times> table_schema) list \<Rightarrow> dataframe \<Rightarrow> string \<Rightarrow> table_node \<Rightarrow>
   (string \<times> table_node) list \<Rightarrow> graph \<times> nat \<Rightarrow> error + graph \<times> nat" where
  "fk_targets sqlite conn schemas source_df source_table source_info [] acc = Inr acc"
| "fk_targets sqlite conn schemas source_df source_table source_info ((target_table, target_info) # rest) (g, total_rels) =
     (if source_table = target_table then
        fk_targets sqlite conn schemas source_df source_table source_info rest (g, total_rels)
      else
        (case map_of schemas target_table of
           None \<Rightarrow> Inl (KeyError target_table)
         | Some target_schema \<Rightarrow>
             (case detect_fk_to_target sqlite source_df target_table (tn_pk target_info) conn of
                None \<Rightarrow> fk_targets sqlite conn schemas source_df source_table source_info rest (g, total_rels)
              | Some fk_col \<Rightarrow>
                  if fk_col = [] then
                    fk_targets sqlite conn schemas source_df source_table source_info rest (g, total_rels)
                  else
                    (case create_fk_rels conn g (tn_label source_info) (tn_pk source_info)
                            (tn_label target_info) (tn_pk target_info) source_table fk_col of
                       Inl e \<Rightarrow> Inl e
                     | Inr (g', rel_count) \<Rightarrow>
                         fk_targets sqlite conn schemas source_df source_table source_info rest
                           (g', total_rels + rel_count)))))"

fun fk_sources ::
  "sql_engine \<Rightarrow> database \<Rightarrow> (string \<times> table_schema) list \<Rightarrow> (string \<times> table_node) list \<Rightarrow>
   (string \<times> table_node) list \<Rightarrow> graph \<times> nat \<Rightarrow> error + graph \<times> nat" where
  "fk_sources sqlite conn schemas table_nodes [] acc = Inr acc"
| "fk_sources sqlite conn schemas table_nodes ((source_table, source_info) # rest) acc =
     (case select_all conn source_table of
        Inl e \<Rightarrow> Inl e
      | Inr source_df \<Rightarrow>
          (case fk_targets sqlite conn schemas source_df source_table source_info table_nodes acc of
             Inl e \<Rightarrow> Inl e
           | Inr acc' \<Rightarrow> fk_sources sqlite conn schemas table_nodes rest acc'))"

definition create_all_fk_relationships ::
  "sql_engine \<Rightarrow> database \<Rightarrow> graph \<Rightarrow> (string \<times> table_node) list \<Rightarrow> (string \<times> table_schema) list \<Rightarrow> error + graph \<times> nat" where
  "create_all_fk_relationships sqlite conn g table_nodes schemas =
     fk_sources sqlite conn schemas table_nodes table_nodes (g, 0)"

text \<open>\<open>str(v)\<close> of a cell; a null is never rendered, since \<open>dropna\<close> comes first.\<close>

fun py_str :: "sqlval \<Rightarrow> string" where
  "py_str Null = ''nan''"
| "py_str (IntV i) = str_int i"
| "py_str (TextV s) = s"

definition categorical_cols :: "string list" where
  "categorical_cols = [''department'', ''city'', ''category'', ''status'', ''type'', ''name'',
     ''product'', ''country'', ''genre'', ''title'']"

text \<open>
  The statement of \<open>_create_categorical_relationships\<close> for one value, passed as the text
  \<open>str(cat_value)\<close>: the nodes of the label whose property equals that text are matched, the
  category node is merged once there is such a node, and each matched node is joined to it.
\<close>

definition category_stmt :: "graph \<Rightarrow> string \<Rightarrow> string \<Rightarrow> string \<Rightarrow> string \<Rightarrow> graph" where
  "category_stmt g label k rel_name cat =
     (let ns = match_nodes g label k (TextV cat) in
      if ns = [] then g
      else
        (case merge_node_value g ''Category'' ''name'' (TextV cat) of
           (g', cats) \<Rightarrow> fold merge_rel (concat (map (\<lambda>n. map (\<lambda>c. (n, rel_name, c)) cats) ns)) g'))"

text \<open>\<open>for cat_value in unique_cats[:20]: if str(cat_value).strip(): session.run(...)\<close>\<close>

fun category_values :: "graph \<Rightarrow> string \<Rightarrow> string \<Rightarrow> string \<Rightarrow> sqlval list \<Rightarrow> graph" where
  "category_values g label col rel_name [] = g"
| "category_values g label col rel_name (cat_value # rest) =
     (if strip (py_str cat_value) \<noteq> [] then
        category_values (category_stmt g label (safe_property col) rel_name (py_str cat_value))
          label col rel_name rest
      else category_values g label col rel_name rest)"

text \<open>The loop over \<open>categorical_cols\<close>, left by \<open>break\<close> after the first column that is present.\<close>

fun categorical_columns :: "graph \<Rightarrow> dataframe \<Rightarrow> string \<Rightarrow> string list \<Rightarrow> graph" where
  "categorical_columns g df label [] = g"
| "categorical_columns g df label (col # cols) =
     (if col \<in> set (df_columns df) then
        (let rel_name = ''HAS_'' @ upper (safe_property col);
             unique_cats = unique (dropna (df_column df col))
         in category_values g label col rel_name (take 20 unique_cats))
      else categorical_columns g df label cols)"

fun categorical_tables :: "database \<Rightarrow> graph \<Rightarrow> (string \<times> table_node) list \<Rightarrow> error + graph" where
  "categorical_tables conn g [] = Inr g"
| "categorical_tables conn g ((tname, table_info) # rest) =
     (case select_all conn tname of
        Inl e \<Rightarrow> Inl e
      | Inr df \<Rightarrow>
          categorical_tables conn (categorical_columns g df (tn_label table_info) categorical_cols) rest)"

definition create_categorical_relationships ::
  "database \<Rightarrow> graph \<Rightarrow> (string \<times> table_node) list \<Rightarrow> (string \<times> table_schema) list \<Rightarrow> error + graph" where
  "create_categorical_relationships conn g table_nodes schemas = categorical_tables conn g table_nodes"

text \<open>\<open>_safe_cleanup\<close>: \<open>MATCH (n) DETACH DELETE n\<close>.\<close>

definition safe_cleanup :: "graph \<Rightarrow> graph" where
  "safe_cleanup g = empty_graph"

text \<open>Step 3 of \<open>convert_all_tables\<close>: the nodes of every table, and the \<open>table_nodes\<close> dictionary.\<close>

fun create_all_nodes ::
  "database \<Rightarrow> (string \<times> table_schema) list \<Rightarrow> graph \<times> (string \<times> table_node) list \<Rightarrow>
   error + graph \<times> (string \<times> table_node) list" where
  "create_all_nodes conn [] acc = Inr acc"
| "create_all_nodes conn ((tname, schema) # rest) (g, table_nodes) =
     (case ts_primary_key schema of
        None \<Rightarrow> Inl (TypeError ''expected string or bytes-like object'')
      | Some pk \<Rightarrow>
          (case create_base_nodes conn g tname (safe_label tname) pk of
             Inl e \<Rightarrow> Inl e
           | Inr (g', node_count) \<Rightarrow>
               create_all_nodes conn rest
                 (g', table_nodes @ [(tname, \<lparr>tn_label = safe_label tname, tn_pk = pk, tn_count = node_count\<rparr>)])))"

text \<open>\<open>sqlite3.connect(db_path)\<close> on a path that \<open>ingest_all_tables\<close> has accepted.\<close>

definition connect :: "filesystem \<Rightarrow> string \<Rightarrow> database" where
  "connect fs db_path = (case fs db_path of Some (SqliteFile db) \<Rightarrow> db | _ \<Rightarrow> [])"

text \<open>
  \<open>convert_all_tables\<close>. The graph held by the store is passed in; the result is the graph
  the run leaves behind, with the schema information the function returns.
\<close>

definition convert_all_tables :: "sql_engine \<Rightarrow> filesystem \<Rightarrow> graph \<Rightarrow> string \<Rightarrow> error + graph \<times> schema_info" where
  "convert_all_tables sqlite fs g db_path =
     (case snd (ingest_all_tables fs db_path) of
        Inl e \<Rightarrow> Inl e
      | Inr info \<Rightarrow>
          (let conn = connect fs db_path in
           case create_all_nodes conn (si_schemas info) (safe_cleanup g, []) of
             Inl e \<Rightarrow> Inl e
           | Inr (g1, table_nodes) \<Rightarrow>
               (case create_all_fk_relationships sqlite conn g1 table_nodes (si_schemas info) of
                  Inl e \<Rightarrow> Inl e
                | Inr (g2, relationships_created) \<Rightarrow>
                    (case create_categorical_relationships conn g2 table_nodes (si_schemas info) of
                       Inl e \<Rightarrow> Inl e
                     | Inr g3 \<Rightarrow> Inr (g3, info)))))"

section \<open>The dual-path orchestrator\<close>

text \<open>
  The text-generation service, the relational source and the graph store as the orchestrator
  sees them: each call returns its value or the exception it raises.
\<close>

type_synonym record_row = "(string \<times> sqlval) list"

record services =
  generate_sql :: "string \<Rightarrow> string \<Rightarrow> error + string"
  translate_to_cypher :: "string \<Rightarrow> string \<Rightarrow> error + string"
  synthesize_sql_answer :: "string \<Rightarrow> record_row list \<Rightarrow> string \<Rightarrow> error + string \<times> string"
  synthesize_kg_answer :: "string \<Rightarrow> record_row list \<Rightarrow> string \<Rightarrow> error + string \<times> string"
  generate_fallback_answer :: "string \<Rightarrow> string \<Rightarrow> string \<Rightarrow> error + string"
  read_sql_query :: "string \<Rightarrow> error + record_row list"
  session_run :: "string \<Rightarrow> error + record_row list"
  graph_catalogue :: "error + string list \<times> string list"

record path_result =
  pr_method :: string
  pr_query :: string
  pr_data :: "record_row list"
  pr_count :: nat
  pr_answer :: string
  pr_explanation :: string

definition get_sql_schema :: "schema_info \<Rightarrow> string" where
  "get_sql_schema info =
     join [CHR 0x0A]
       (map (\<lambda>(t, schema). ''Table `'' @ t @ ''`: '' @ join '', '' (map col_name (ts_columns schema)))
            (si_schemas info))"

definition get_kg_schema :: "services \<Rightarrow> string" where
  "get_kg_schema sv =
     (case graph_catalogue sv of
        Inl e \<Rightarrow> ''Knowledge Graph with multiple connected entities''
      | Inr (node_labels, rel_types) \<Rightarrow>
          ''Nodes: '' @ join '', '' node_labels @ [CHR 0x0A] @ ''Relationships: '' @ join '', '' rel_types)"

text \<open>The \<open>try\<close> block of \<open>_sql_path\<close>: the query is run and the answer synthesized.\<close>

definition sql_attempt :: "services \<Rightarrow> string \<Rightarrow> string \<Rightarrow> string \<Rightarrow> error + path_result" where
  "sql_attempt sv question schema_text sql_query =
     (case read_sql_query sv sql_query of
        Inl e \<Rightarrow> Inl e
      | Inr sql_data \<Rightarrow>
          (case synthesize_sql_answer sv question sql_data schema_text of
             Inl e \<Rightarrow> Inl e
           | Inr (answer, explanation) \<Rightarrow>
               Inr \<lparr>pr_method = ''SQL'', pr_query = sql_query, pr_data = sql_data,
                    pr_count = length sql_data, pr_answer = answer, pr_explanation = explanation\<rparr>))"

definition sql_path :: "services \<Rightarrow> schema_info \<Rightarrow> string \<Rightarrow> error + path_result" where
  "sql_path sv info question =
     (let schema_text = get_sql_schema info in
      case generate_sql sv question schema_text of
        Inl e \<Rightarrow> Inl e
      | Inr sql_query \<Rightarrow>
          (case sql_attempt sv question schema_text sql_query of
             Inr r \<Rightarrow> Inr r
           | Inl e \<Rightarrow>
               (case generate_fallback_answer sv question schema_text ''SQL'' of
                  Inl e' \<Rightarrow> Inl e'
                | Inr fallback_answer \<Rightarrow>
                    Inr \<lparr>pr_method = ''SQL'', pr_query = sql_query, pr_data = [], pr_count = 0,
                         pr_answer = fallback_answer,
                         pr_explanation = ''Query failed: '' @ str_error e @ '' - using schema knowledge''\<rparr>)))"

definition cypher_attempt :: "services \<Rightarrow> string \<Rightarrow> string \<Rightarrow> string \<Rightarrow> error + path_result" where
  "cypher_attempt sv question schema_text cypher_query =
     (case session_run sv (cypher_query @ '' LIMIT 50'') of
        Inl e \<Rightarrow> Inl e
      | Inr cypher_data \<Rightarrow>
          (case synthesize_kg_answer sv question cypher_data schema_text of
             Inl e \<Rightarrow> Inl e
           | Inr (answer, explanation) \<Rightarrow>
               Inr \<lparr>pr_method = ''Knowledge Graph'', pr_query = cypher_query, pr_data = cypher_data,
                    pr_count = length cypher_data, pr_answer = answer, pr_explanation = explanation\<rparr>))"

definition cypher_path :: "services \<Rightarrow> string \<Rightarrow> error + path_result" where
  "cypher_path sv question =
     (let schema_text = get_kg_schema sv in
      case translate_to_cypher sv question schema_text of
        Inl e \<Rightarrow> Inl e
      | Inr cypher_query \<Rightarrow>
          (case cypher_attempt sv question schema_text cypher_query of
             Inr r \<Rightarrow> Inr r
           | Inl e \<Rightarrow>
               (case generate_fallback_answer sv question schema_text ''Cypher'' of
                  Inl e' \<Rightarrow> Inl e'
                | Inr fallback_answer \<Rightarrow>
                    Inr \<lparr>pr_method = ''Knowledge Graph'', pr_query = cypher_query, pr_data = [],
                         pr_count = 0, pr_answer = fallback_answer,
                         pr_explanation =
                           ''Query failed: '' @ str_error e @ '' - using graph schema knowledge''\<rparr>)))"

text \<open>\<open>dual_path_query\<close>: the pair stands for \<open>{"sql_path": ..., "cypher_path": ...}\<close>.\<close>

definition dual_path_query :: "services \<Rightarrow> schema_info \<Rightarrow> string \<Rightarrow> error + path_result \<times> path_result" where
  "dual_path_query sv info question =
     (case sql_path sv info question of
        Inl e \<Rightarrow> Inl e
      | Inr sql_result \<Rightarrow>
          (case cypher_path sv question of
             Inl e \<Rightarrow> Inl e
           | Inr cypher_result \<Rightarrow> Inr (sql_result, cypher_result)))"

section \<open>Predicates on graphs\<close>

text \<open>A name that holds only characters of \<open>[A-Za-z0-9_]\<close>.\<close>

definition safe_name :: "string \<Rightarrow> bool" where
  "safe_name s = list_all safe_char s"





text \<open>The category node of a value, and the number of category nodes of a graph.\<close>

definition category_node :: "string \<Rightarrow> node" where
  "category_node cat = \<lparr>node_label = ''Category'', node_props = [(''name'', TextV cat)]\<rparr>"

definition category_count :: "graph \<Rightarrow> nat" where
  "category_count g = length (filter (\<lambda>n. node_label n = ''Category'') (graph_nodes g))"

text \<open>
  A relationship of type \<open>rel_name\<close> from a node of the label that carries property \<open>k\<close> to a
  category node named by the value of that property.
\<close>

definition category_edge :: "graph \<Rightarrow> string \<Rightarrow> string \<Rightarrow> string \<Rightarrow> nat \<times> string \<times> nat \<Rightarrow> bool" where
  "category_edge g label k rel_name r =
     (case r of (n, ty, c) \<Rightarrow>
        ty = rel_name \<and> n < length (graph_nodes g) \<and> c < length (graph_nodes g) \<and>
        node_label (graph_nodes g ! n) = label \<and>
        node_label (graph_nodes g ! c) = ''Category'' \<and>
        get_prop (node_props (graph_nodes g ! n)) k \<noteq> Null \<and>
        get_prop (node_props (graph_nodes g ! c)) ''name'' = get_prop (node_props (graph_nodes g ! n)) k)"

text \<open>The values for which \<open>_create_categorical_relationships\<close> runs its statement.\<close>

definition category_values_used :: "dataframe \<Rightarrow> string \<Rightarrow> sqlval list" where
  "category_values_used df col =
     filter (\<lambda>v. strip (py_str v) \<noteq> []) (take 20 (unique (dropna (df_column df col))))"

text \<open>The relationships of a graph that have a given type.\<close>

definition rels_of_type :: "string \<Rightarrow> graph \<Rightarrow> (nat \<times> string \<times> nat) list" where
  "rels_of_type ty g = filter (\<lambda>r. fst (snd r) = ty) (graph_rels g)"

section \<open>What is asked of the engine\<close>

definition is_int :: "sqlval \<Rightarrow> bool" where
  "is_int v = (case v of IntV i \<Rightarrow> True | _ \<Rightarrow> False)"


section \<open>The acceptance tests as the specification words them\<close>

text \<open>
  The name-pattern rule in the words of the specification: among up to ten distinct non-null
  values of the column, the fraction found among the key values of the target exceeds 0.3.
\<close>

definition key_domain :: "database \<Rightarrow> string \<Rightarrow> string \<Rightarrow> sqlval list" where
  "key_domain conn target_table target_pk =
     (case select_all conn target_table of Inl e \<Rightarrow> [] | Inr df \<Rightarrow> df_column df target_pk)"

definition spec_name_accepts :: "database \<Rightarrow> dataframe \<Rightarrow> string \<Rightarrow> string \<Rightarrow> string \<Rightarrow> bool" where
  "spec_name_accepts conn source_df target_table target_pk col =
     (let sample_vals = take 10 (unique (dropna (df_column source_df col)))
      in 3 * length sample_vals
           < 10 * length (filter (\<lambda>v. v \<in> set (key_domain conn target_table target_pk)) sample_vals))"

text \<open>
  The fallback rule in the words of the specification: fewer distinct values than a tenth of
  the rows, more than one, and the check of the first rule, on up to ten values, finding a
  match.
\<close>

definition spec_cardinality_accepts :: "sql_engine \<Rightarrow> database \<Rightarrow> dataframe \<Rightarrow> string \<Rightarrow> string \<Rightarrow> string \<Rightarrow> bool" where
  "spec_cardinality_accepts sqlite conn source_df target_table target_pk col =
     (10 * nunique (df_column source_df col) < length (df_rows source_df)
      \<and> 1 < nunique (df_column source_df col)
      \<and> (case check_query sqlite conn target_table target_pk
                 (take 10 (unique (dropna (df_column source_df col)))) of
            Inl e \<Rightarrow> False
          | Inr match_count \<Rightarrow> 0 < match_count))"

section \<open>An engine for the examples\<close>

text \<open>
  The examples need an engine. This one answers as SQLite does on the statements the examples
  put to it: it fails when the target table or the key column does not exist, and when a
  spliced text is a word that names no column of the target and is none of the words SQLite
  reads as an expression (SQLite reports \<open>no such column\<close>, or a syntax error when the word is
  reserved); when every spliced text is an integer numeral and the key cells are integers or
  null, it counts the rows whose key is one of the integers. No example puts any other
  statement to it; for those it raises an error of its own, which says nothing about SQLite.
\<close>

definition digits_value :: "string \<Rightarrow> nat" where
  "digits_value s = foldl (\<lambda>a c. 10 * a + (of_char c - 48)) 0 s"

definition int_numeral :: "string \<Rightarrow> int option" where
  "int_numeral s =
     (if s \<noteq> [] \<and> hd s = CHR ''-'' then
        (if tl s \<noteq> [] \<and> list_all is_digit (tl s) then Some (- int (digits_value (tl s))) else None)
      else if s \<noteq> [] \<and> list_all is_digit s then Some (int (digits_value s)) else None)"

definition expression_words :: "string list" where
  "expression_words = [''null'', ''true'', ''false'', ''current_date'', ''current_time'',
     ''current_timestamp'', ''rowid'', ''oid'', ''_rowid_'']"

definition unknown_word :: "string list \<Rightarrow> string \<Rightarrow> bool" where
  "unknown_word cols w =
     (w \<noteq> [] \<and> list_all safe_char w \<and> (is_lower (hd w) \<or> is_upper (hd w) \<or> hd w = CHR ''_'') \<and>
      lower w \<notin> set (map lower cols) \<and> lower w \<notin> set expression_words)"

datatype spliced = Numeral int | UnknownWord | OtherText

definition spliced_as :: "string list \<Rightarrow> sqlval \<Rightarrow> spliced" where
  "spliced_as cols v =
     (case v of
        Null \<Rightarrow> OtherText
      | IntV i \<Rightarrow> Numeral i
      | TextV s \<Rightarrow>
          (case int_numeral s of
             Some i \<Rightarrow> Numeral i
           | None \<Rightarrow> if unknown_word cols s then UnknownWord else OtherText))"

definition integer_engine :: sql_engine where
  "integer_engine conn target_table target_pk sample_vals =
     (case select_all conn target_table of
        Inl e \<Rightarrow> Inl e
      | Inr df \<Rightarrow>
          if target_pk \<notin> set (df_columns df)
          then Inl (DatabaseError (''no such column: '' @ target_pk))
          else
            (let texts = map (spliced_as (df_columns df)) sample_vals in
             if UnknownWord \<in> set texts then Inl (DatabaseError ''no such column'')
             else if list_all (\<lambda>t. t \<noteq> OtherText) texts \<and>
                     list_all (\<lambda>v. v = Null \<or> is_int v) (df_column df target_pk)
             then Inr (length (filter (\<lambda>v. case v of IntV k \<Rightarrow> Numeral k \<in> set texts | _ \<Rightarrow> False)
                                 (df_column df target_pk)))
             else Inl (DatabaseError ''statement not covered by the examples'')))"

section \<open>Example sources\<close>

definition column :: "string \<Rightarrow> string \<Rightarrow> nat \<Rightarrow> column_info" where
  "column n ty p = \<lparr>col_name = n, col_type = ty, col_pk = p, col_notnull = 0\<rparr>"

definition read_table :: "table \<Rightarrow> dataframe" where
  "read_table t = \<lparr>df_columns = map col_name (table_columns t), df_rows = table_rows t\<rparr>"

text \<open>The table of the end-to-end scenario: every manager is an employee.\<close>

definition employees :: table where
  "employees =
     \<lparr>table_name = ''employees'',
      table_columns = [column ''emp_id'' ''INTEGER'' 1, column ''manager_id'' ''INTEGER'' 0,
                       column ''department'' ''TEXT'' 0],
      table_rows = [[IntV 1, Null, TextV ''Sales''], [IntV 2, IntV 1, TextV ''Sales''],
                    [IntV 3, IntV 1, TextV ''HR''], [IntV 4, IntV 2, TextV ''HR'']]\<rparr>"

definition employees_fs :: filesystem where
  "employees_fs = (\<lambda>p. if p = ''employees.db'' then Some (SqliteFile [employees]) else None)"

text \<open>The nodes of the employees table, and the graph with the edges to their departments.\<close>

definition employees_nodes :: graph where
  "employees_nodes =
     \<lparr>graph_nodes =
        [\<lparr>node_label = ''employees'',
          node_props = [(''emp_id'', IntV 1), (''department'', TextV ''Sales'')]\<rparr>,
         \<lparr>node_label = ''employees'',
          node_props = [(''emp_id'', IntV 2), (''manager_id'', IntV 1), (''department'', TextV ''Sales'')]\<rparr>,
         \<lparr>node_label = ''employees'',
          node_props = [(''emp_id'', IntV 3), (''manager_id'', IntV 1), (''department'', TextV ''HR'')]\<rparr>,
         \<lparr>node_label = ''employees'',
          node_props = [(''emp_id'', IntV 4), (''manager_id'', IntV 2), (''department'', TextV ''HR'')]\<rparr>],
      graph_rels = []\<rparr>"

definition employees_graph :: graph where
  "employees_graph =
     \<lparr>graph_nodes = graph_nodes employees_nodes @ [category_node ''Sales'', category_node ''HR''],
      graph_rels = [(0, ''HAS_DEPARTMENT'', 4), (1, ''HAS_DEPARTMENT'', 4),
                    (2, ''HAS_DEPARTMENT'', 5), (3, ''HAS_DEPARTMENT'', 5)]\<rparr>"

text \<open>Two orders, the second of a customer who is not in the customers table, and the nodes of
  both tables.\<close>

definition orders :: table where
  "orders =
     \<lparr>table_name = ''orders'',
      table_columns = [column ''order_id'' ''INTEGER'' 1, column ''customer_id'' ''INTEGER'' 0],
      table_rows = [[IntV 1, IntV 7], [IntV 2, IntV 99]]\<rparr>"

definition customers :: table where
  "customers =
     \<lparr>table_name = ''customers'',
      table_columns = [column ''customer_id'' ''INTEGER'' 1],
      table_rows = [[IntV 7]]\<rparr>"

definition shop_nodes :: graph where
  "shop_nodes =
     \<lparr>graph_nodes =
        [\<lparr>node_label = ''orders'', node_props = [(''order_id'', IntV 1), (''customer_id'', IntV 7)]\<rparr>,
         \<lparr>node_label = ''orders'', node_props = [(''order_id'', IntV 2), (''customer_id'', IntV 99)]\<rparr>,
         \<lparr>node_label = ''customers'', node_props = [(''customer_id'', IntV 7)]\<rparr>],
      graph_rels = []\<rparr>"



text \<open>
  Sixty-one events with six distinct codes, of which only the sixth is a key of the kinds
  table; no column name of the events table matches a pattern for it.
\<close>

definition events :: table where
  "events =
     \<lparr>table_name = ''events'',
      table_columns = [column ''code'' ''INTEGER'' 0],
      table_rows = map (\<lambda>i. [IntV i]) [1, 2, 3, 4, 5] @ replicate 56 [IntV 6]\<rparr>"

definition kinds :: table where
  "kinds =
     \<lparr>table_name = ''kinds'',
      table_columns = [column ''kind'' ''INTEGER'' 1],
      table_rows = [[IntV 6]]\<rparr>"




text \<open>
  Fifty shops in fifty cities with fifty distinct one-letter names, the third of which is a
  blank.
\<close>

definition shops :: table where
  "shops =
     \<lparr>table_name = ''shops'',
      table_columns = [column ''id'' ''INTEGER'' 1, column ''city'' ''TEXT'' 0],
      table_rows =
        map (\<lambda>i. [IntV (int i), TextV (if i = 67 then '' '' else [char_of i])]) [65..<115]\<rparr>"

definition shops_fs :: filesystem where
  "shops_fs = (\<lambda>p. if p = ''shops.db'' then Some (SqliteFile [shops]) else None)"









text \<open>A text-generation service that is down, and one that answers while both stores fail.\<close>

definition service_down :: services where
  "service_down =
     \<lparr>generate_sql = (\<lambda>q s. Inl (ServiceError ''503 Service Unavailable'')),
      translate_to_cypher = (\<lambda>q s. Inl (ServiceError ''503 Service Unavailable'')),
      synthesize_sql_answer = (\<lambda>q d s. Inl (ServiceError ''503 Service Unavailable'')),
      synthesize_kg_answer = (\<lambda>q d s. Inl (ServiceError ''503 Service Unavailable'')),
      generate_fallback_answer = (\<lambda>q s m. Inl (ServiceError ''503 Service Unavailable'')),
      read_sql_query = (\<lambda>q. Inr []),
      session_run = (\<lambda>q. Inr []),
      graph_catalogue = Inr ([''employees''], [])\<rparr>"

definition stores_failing :: services where
  "stores_failing =
     \<lparr>generate_sql = (\<lambda>q s. Inr ''SELECT nothing''),
      translate_to_cypher = (\<lambda>q s. Inr ''MATCH nothing''),
      synthesize_sql_answer = (\<lambda>q d s. Inr (''four'', [])),
      synthesize_kg_answer = (\<lambda>q d s. Inr (''four'', [])),
      generate_fallback_answer = (\<lambda>q s m. Inr ''probably four''),
      read_sql_query = (\<lambda>q. Inl (DatabaseError ''no such column: nothing'')),
      session_run = (\<lambda>q. Inl (CypherError ''invalid input'')),
      graph_catalogue = Inl (CypherError ''connection refused'')\<rparr>"

text \<open>A service that generates the queries and then stops answering, while both stores fail.\<close>

definition fallback_down :: services where
  "fallback_down =
     \<lparr>generate_sql = (\<lambda>q s. Inr ''SELECT nothing''),
      translate_to_cypher = (\<lambda>q s. Inr ''MATCH nothing''),
      synthesize_sql_answer = (\<lambda>q d s. Inl (ServiceError ''503 Service Unavailable'')),
      synthesize_kg_answer = (\<lambda>q d s. Inl (ServiceError ''503 Service Unavailable'')),
      generate_fallback_answer = (\<lambda>q s m. Inl (ServiceError ''503 Service Unavailable'')),
      read_sql_query = (\<lambda>q. Inl (DatabaseError ''no such column: nothing'')),
      session_run = (\<lambda>q. Inl (CypherError ''invalid input'')),
      graph_catalogue = Inr ([''employees''], [])\<rparr>"

text \<open>
  A service that answers every call but the generation of the graph query.
\<close>

definition cypher_down :: services where
  "cypher_down =
     \<lparr>generate_sql = (\<lambda>q s. Inr ''SELECT COUNT(*) FROM employees''),
      translate_to_cypher = (\<lambda>q s. Inl (ServiceError ''503 Service Unavailable'')),
      synthesize_sql_answer = (\<lambda>q d s. Inr (''four'', [])),
      synthesize_kg_answer = (\<lambda>q d s. Inr (''four'', [])),
      generate_fallback_answer = (\<lambda>q s m. Inr ''probably four''),
      read_sql_query = (\<lambda>q. Inr [[(''COUNT(*)'', IntV 4)]]),
      session_run = (\<lambda>q. Inr []),
      graph_catalogue = Inr ([''employees''], [])\<rparr>"

definition employees_info :: schema_info where
  "employees_info =
     \<lparr>si_tables = [''employees''], si_schemas = [analyze_table employees], si_total_rows = 4\<rparr>"

section \<open>Properties of the string functions\<close>

lemma lower_char_not_upper: "\<not> is_upper (lower_char c)"
  by (auto simp: lower_char_def is_upper_def)

lemma lower_no_upper: "c \<in> set (lower s) \<Longrightarrow> \<not> is_upper c"
  by (auto simp: lower_def lower_char_not_upper)

lemma upper_id_not_in_lower: "\<not> sublist (p @ ''_ID'') (lower s)"
proof
  assume "sublist (p @ ''_ID'') (lower s)"
  then have "set (p @ ''_ID'') \<subseteq> set (lower s)"
    by (rule set_mono_sublist)
  then have "CHR ''I'' \<in> set (lower s)"
    by auto
  moreover have "is_upper CHR ''I''"
    by (simp add: is_upper_def)
  ultimately show False
    using lower_no_upper by blast
qed

lemma safe_label_chars: "c \<in> set (safe_label s) \<Longrightarrow> safe_char c"
  unfolding safe_label_def by (auto dest!: in_set_takeD simp: safe_char_def)

lemma safe_property_eq: "safe_property s = safe_label s"
  by (simp add: safe_property_def safe_label_def)


lemma upper_char_safe: "safe_char c \<Longrightarrow> safe_char (upper_char c)"
  by (auto simp: safe_char_def upper_char_def is_lower_def is_upper_def is_digit_def)

section \<open>The name-pattern test\<close>

text \<open>
  C10. The pattern \<open><t>_ID\<close> is looked for in the lower-cased column name, which holds no
  upper-case letter, so it is never found: the test with the three patterns of
  \<open>fk_patterns\<close> gives, for every column, target table and target key, the same answer as
  the test with \<open><t>_id\<close> and the lower-cased key name alone.
\<close>

theorem upper_id_pattern_never_matches:
  "\<not> sublist (lower target_table @ ''_ID'') (lower col) \<and>
   name_pattern_match col target_table target_pk = two_pattern_match col target_table target_pk"
  by (simp add: name_pattern_match_def two_pattern_match_def fk_patterns_def upper_id_not_in_lower)

section \<open>Schema introspection: the recorded key\<close>

lemma find_first_split:
  "cols = pre @ c # post \<Longrightarrow> \<forall>d\<in>set pre. \<not> P d \<Longrightarrow> P c \<Longrightarrow> find P cols = Some c"
  by (induction pre arbitrary: cols) auto

lemma detect_pk_declared:
  assumes "columns = pre @ c # post" "\<forall>d\<in>set pre. col_pk d = 0" "col_pk c \<noteq> 0"
  shows "detect_pk columns = Some (col_name c)"
  using find_first_split[of columns pre c post "\<lambda>c. col_pk c \<noteq> 0"] assms
  by (simp add: detect_pk_def)

lemma detect_pk_fallback:
  assumes "\<forall>d\<in>set columns. col_pk d = 0"
  shows "detect_pk columns = (case columns of [] \<Rightarrow> None | c # _ \<Rightarrow> Some (col_name c))"
proof -
  have "find (\<lambda>c. col_pk c \<noteq> 0) columns = None"
    using assms by (simp add: find_None_iff)
  then show ?thesis by (simp add: detect_pk_def)
qed

lemma employees_ingested: "snd (ingest_all_tables employees_fs ''employees.db'') = Inr employees_info"
  by code_simp

text \<open>
  C8. Introspection hands the file system back as it was (it writes nothing), and fails
  with \<open>FileNotFoundError\<close> exactly when nothing is found at the path. For a database, every
  table it returns is recorded with its columns; the recorded key is the first column in
  declaration order that carries a primary-key flag, and, when no column carries one, the
  first column.
\<close>

theorem ingest_all_tables_primary_key:
  "fst (ingest_all_tables fs db_path) = fs \<and>
   ((\<exists>m. snd (ingest_all_tables fs db_path) = Inl (FileNotFoundError m)) \<longleftrightarrow> fs db_path = None) \<and>
   (\<forall>db. fs db_path = Some (SqliteFile db) \<longrightarrow>
      (\<exists>info. snd (ingest_all_tables fs db_path) = Inr info \<and>
         si_tables info = map table_name (filter (\<lambda>t. \<not> like_sqlite (table_name t)) db) \<and>
         map fst (si_schemas info) = si_tables info \<and>
         (\<forall>t\<in>set db. \<not> like_sqlite (table_name t) \<longrightarrow>
            (\<exists>schema. (table_name t, schema) \<in> set (si_schemas info) \<and>
               ts_columns schema = table_columns t \<and>
               (\<forall>pre c post. table_columns t = pre @ c # post \<and> (\<forall>d\<in>set pre. col_pk d = 0) \<and> col_pk c \<noteq> 0
                   \<longrightarrow> ts_primary_key schema = Some (col_name c)) \<and>
               ((\<forall>d\<in>set (table_columns t). col_pk d = 0) \<longrightarrow>
                   ts_primary_key schema =
                     (case table_columns t of [] \<Rightarrow> None | c # _ \<Rightarrow> Some (col_name c)))))))"
proof (intro conjI allI impI)
  show "fst (ingest_all_tables fs db_path) = fs"
    by (simp add: ingest_all_tables_def Let_def split: option.splits source_file.splits)
  show "(\<exists>m. snd (ingest_all_tables fs db_path) = Inl (FileNotFoundError m)) \<longleftrightarrow> fs db_path = None"
    by (simp add: ingest_all_tables_def Let_def split: option.splits source_file.splits)
next
  fix db
  assume db: "fs db_path = Some (SqliteFile db)"
  define tables where "tables = filter (\<lambda>t. \<not> like_sqlite (table_name t)) db"
  define info where "info = \<lparr>si_tables = map table_name tables,
      si_schemas = map analyze_table tables,
      si_total_rows = sum_list (map (\<lambda>s. ts_row_count (snd s)) (map analyze_table tables))\<rparr>"
  have res: "snd (ingest_all_tables fs db_path) = Inr info"
    using db by (simp add: ingest_all_tables_def Let_def info_def tables_def)
  have names: "map fst (si_schemas info) = si_tables info"
    by (simp add: info_def analyze_table_def comp_def)
  have each: "\<exists>schema. (table_name t, schema) \<in> set (si_schemas info) \<and>
               ts_columns schema = table_columns t \<and>
               (\<forall>pre c post. table_columns t = pre @ c # post \<and> (\<forall>d\<in>set pre. col_pk d = 0) \<and> col_pk c \<noteq> 0
                   \<longrightarrow> ts_primary_key schema = Some (col_name c)) \<and>
               ((\<forall>d\<in>set (table_columns t). col_pk d = 0) \<longrightarrow>
                   ts_primary_key schema =
                     (case table_columns t of [] \<Rightarrow> None | c # _ \<Rightarrow> Some (col_name c)))"
    if "t \<in> set db" "\<not> like_sqlite (table_name t)" for t
  proof -
    have "analyze_table t \<in> set (si_schemas info)"
      using that by (simp add: info_def tables_def)
    then have "(table_name t, snd (analyze_table t)) \<in> set (si_schemas info)"
      by (simp add: analyze_table_def)
    moreover have "ts_columns (snd (analyze_table t)) = table_columns t"
      by (simp add: analyze_table_def)
    moreover have "ts_primary_key (snd (analyze_table t)) = detect_pk (table_columns t)"
      by (simp add: analyze_table_def)
    ultimately show ?thesis
      using detect_pk_declared detect_pk_fallback by (metis (no_types, lifting))
  qed
  show "\<exists>info. snd (ingest_all_tables fs db_path) = Inr info \<and>
         si_tables info = map table_name (filter (\<lambda>t. \<not> like_sqlite (table_name t)) db) \<and>
         map fst (si_schemas info) = si_tables info \<and>
         (\<forall>t\<in>set db. \<not> like_sqlite (table_name t) \<longrightarrow>
            (\<exists>schema. (table_name t, schema) \<in> set (si_schemas info) \<and>
               ts_columns schema = table_columns t \<and>
               (\<forall>pre c post. table_columns t = pre @ c # post \<and> (\<forall>d\<in>set pre. col_pk d = 0) \<and> col_pk c \<noteq> 0
                   \<longrightarrow> ts_primary_key schema = Some (col_name c)) \<and>
               ((\<forall>d\<in>set (table_columns t). col_pk d = 0) \<longrightarrow>
                   ts_primary_key schema =
                     (case table_columns t of [] \<Rightarrow> None | c # _ \<Rightarrow> Some (col_name c)))))"
    using res names each by (intro exI[of _ info]) (simp add: info_def tables_def)
qed

theorem ingest_all_tables_primary_key_witness:
  "employees_fs ''employees.db'' = Some (SqliteFile [employees]) \<and>
   fst (ingest_all_tables employees_fs ''employees.db'') = employees_fs \<and>
   (\<exists>schema. (''employees'', schema) \<in> set (si_schemas employees_info) \<and>
       ts_primary_key schema = Some ''emp_id'') \<and>
   employees_fs ''missing.db'' = None \<and>
   (\<exists>m. snd (ingest_all_tables employees_fs ''missing.db'') = Inl (FileNotFoundError m))"
proof -
  have db: "employees_fs ''employees.db'' = Some (SqliteFile [employees])"
    by (simp add: employees_fs_def)
  have none: "employees_fs ''missing.db'' = None"
    by (simp add: employees_fs_def)
  have cols: "table_columns employees = [] @ column ''emp_id'' ''INTEGER'' 1 #
      [column ''manager_id'' ''INTEGER'' 0, column ''department'' ''TEXT'' 0]"
    by (simp add: employees_def)
  have pk: "col_pk (column ''emp_id'' ''INTEGER'' 1) \<noteq> 0" "col_name (column ''emp_id'' ''INTEGER'' 1) = ''emp_id''"
    by (simp_all add: column_def)
  have nm: "table_name employees = ''employees''"
    by (simp add: employees_def)
  have ns: "\<not> like_sqlite ''employees''"
    by code_simp
  from ingest_all_tables_primary_key[of employees_fs "''employees.db''"] db employees_ingested nm ns
  obtain schema where sc: "(''employees'', schema) \<in> set (si_schemas employees_info)"
    and "\<forall>pre c post. table_columns employees = pre @ c # post \<and> (\<forall>d\<in>set pre. col_pk d = 0) \<and> col_pk c \<noteq> 0
                   \<longrightarrow> ts_primary_key schema = Some (col_name c)"
    by auto
  with cols pk have "ts_primary_key schema = Some ''emp_id''"
    by (metis empty_iff list.set(1))
  with sc show ?thesis
    using ingest_all_tables_primary_key[of employees_fs "''missing.db''"]
      ingest_all_tables_primary_key[of employees_fs "''employees.db''"] db none
    by auto
qed

section \<open>Reference detection: the two rules\<close>









lemma cardinality_rule_step_Some:
  "cardinality_rule_step sqlite conn df tt tpk col = Some c \<longleftrightarrow>
     c = col \<and> 10 * nunique (df_column df col) < length (df_rows df) \<and>
     1 < nunique (df_column df col) \<and>
     (\<exists>m. check_query sqlite conn tt tpk (take 5 (unique (dropna (df_column df col)))) = Inr m \<and> 0 < m)"
  by (auto simp: cardinality_rule_step_def Let_def nunique_def split: sum.splits)

lemma cardinality_rule_find:
  "cardinality_rule sqlite conn df tt tpk cols
     = find (\<lambda>col. cardinality_rule_step sqlite conn df tt tpk col = Some col) cols"
proof (induction cols)
  case Nil
  then show ?case by simp
next
  case (Cons col cols)
  show ?case
  proof (cases "cardinality_rule_step sqlite conn df tt tpk col")
    case None
    with Cons show ?thesis by simp
  next
    case (Some c)
    then have "c = col" by (simp add: cardinality_rule_step_Some)
    with Some show ?thesis by simp
  qed
qed













text \<open>
  C5, as the claim states it, fails on the code: the second loop samples five values, not
  ten. The events table has 61 rows and six distinct codes, and only the sixth code is a
  key of the kinds table: the check on ten values would find a match, the check on the first
  five finds none, and no column is returned.
\<close>

theorem cardinality_rule_samples_five:
  "name_rule integer_engine [events, kinds] (read_table events) ''kinds'' ''kind'' (df_columns (read_table events)) = None \<and>
   spec_cardinality_accepts integer_engine [events, kinds] (read_table events) ''kinds'' ''kind'' ''code'' \<and>
   cardinality_rule_step integer_engine [events, kinds] (read_table events) ''kinds'' ''kind'' ''code'' = None \<and>
   detect_fk_to_target integer_engine (read_table events) ''kinds'' ''kind'' [events, kinds] = None"
  by code_simp

text \<open>
  C5, amended. In the second loop a column is accepted exactly when its number of distinct
  non-null values is less than a tenth of the row count and greater than one, and the
  verification statement on up to five sampled distinct non-null values succeeds with at
  least one matching row. The loop returns the first such column, and it runs only when the
  first loop has returned nothing.
\<close>

theorem cardinality_rule_accepts:
  "(cardinality_rule_step sqlite conn df tt tpk col = Some col \<longleftrightarrow>
      10 * nunique (df_column df col) < length (df_rows df) \<and>
      1 < nunique (df_column df col) \<and>
      (\<exists>m. check_query sqlite conn tt tpk (take 5 (unique (dropna (df_column df col)))) = Inr m \<and> 0 < m)) \<and>
   cardinality_rule sqlite conn df tt tpk cols
     = find (\<lambda>c. cardinality_rule_step sqlite conn df tt tpk c = Some c) cols \<and>
   detect_fk_to_target sqlite df tt tpk conn =
     (case name_rule sqlite conn df tt tpk (df_columns df) of
        Some c \<Rightarrow> Some c
      | None \<Rightarrow> find (\<lambda>c. cardinality_rule_step sqlite conn df tt tpk c = Some c) (df_columns df))"
  by (simp add: cardinality_rule_step_Some cardinality_rule_find detect_fk_to_target_def
      split: option.splits)

theorem cardinality_rule_accepts_witness:
  "cardinality_rule_step integer_engine [events, kinds] (read_table events) ''kinds'' ''kind'' ''code'' \<noteq> Some ''code'' \<and>
   detect_fk_to_target integer_engine (read_table events) ''kinds'' ''kind'' [events, kinds] = None"
proof -
  have q: "check_query integer_engine [events, kinds] ''kinds'' ''kind''
      (take 5 (unique (dropna (df_column (read_table events) ''code'')))) = Inr 0"
    by code_simp
  have nr: "name_rule integer_engine [events, kinds] (read_table events) ''kinds'' ''kind'' (df_columns (read_table events)) = None"
    by code_simp
  have cols: "df_columns (read_table events) = [''code'']"
    by code_simp
  note inst = cardinality_rule_accepts[of integer_engine "[events, kinds]" "read_table events" "''kinds''" "''kind''"
      "''code''" "[''code'']"]
  from inst q have "cardinality_rule_step integer_engine [events, kinds] (read_table events) ''kinds'' ''kind'' ''code'' \<noteq> Some ''code''"
    by simp
  with inst nr cols show ?thesis
    by simp
qed



section \<open>Reference edges: the returned count\<close>

text \<open>
  C2. Of the two orders the second names customer 99, for whom there is no node. The
  column is detected as a reference to the customers table; the statement for the second
  order matches no target and creates nothing, without an error, yet \<open>created_count\<close> is
  incremented for it as well: one relationship is created and the count returned is 2.
\<close>

theorem create_fk_rels_counts_missing_target:
  "create_all_nodes [orders, customers] [analyze_table orders, analyze_table customers] (empty_graph, [])
     = Inr (shop_nodes,
            [(''orders'', \<lparr>tn_label = ''orders'', tn_pk = ''order_id'', tn_count = 2\<rparr>),
             (''customers'', \<lparr>tn_label = ''customers'', tn_pk = ''customer_id'', tn_count = 1\<rparr>)]) \<and>
   detect_fk_to_target integer_engine (read_table orders) ''customers'' ''customer_id'' [orders, customers]
     = Some ''customer_id'' \<and>
   create_fk_rels [orders, customers] shop_nodes ''orders'' ''order_id'' ''customers''
       ''customer_id'' ''orders'' ''customer_id''
     = Inr (shop_nodes\<lparr>graph_rels := [(0, ''REFERENCES_CUSTOMER_ID'', 2)]\<rparr>, 2)"
  by code_simp

section \<open>The dual-path orchestrator: what reaches the caller\<close>

lemma sql_attempt_result:
  "sql_attempt sv q schema_text sql_query = Inr r \<Longrightarrow>
   pr_query r = sql_query \<and> pr_count r = length (pr_data r)"
  by (auto simp: sql_attempt_def split: sum.splits prod.splits)

lemma cypher_attempt_result:
  "cypher_attempt sv q schema_text cypher_query = Inr r \<Longrightarrow>
   pr_query r = cypher_query \<and> pr_count r = length (pr_data r)"
  by (auto simp: cypher_attempt_def split: sum.splits prod.splits)

lemma sql_path_returns:
  assumes "generate_sql sv q (get_sql_schema info) = Inr sql_query"
    and "generate_fallback_answer sv q (get_sql_schema info) ''SQL'' = Inr fb"
  shows "\<exists>r. sql_path sv info q = Inr r \<and> pr_query r = sql_query \<and> pr_count r = length (pr_data r) \<and>
     (\<forall>e. sql_attempt sv q (get_sql_schema info) sql_query = Inl e \<longrightarrow>
        pr_data r = [] \<and> pr_answer r = fb \<and>
        pr_explanation r = ''Query failed: '' @ str_error e @ '' - using schema knowledge'')"
proof (cases "sql_attempt sv q (get_sql_schema info) sql_query")
  case (Inl e)
  with assms show ?thesis
    by (simp add: sql_path_def)
next
  case (Inr r)
  with assms sql_attempt_result[OF Inr] show ?thesis
    by (simp add: sql_path_def)
qed

lemma cypher_path_returns:
  assumes "translate_to_cypher sv q (get_kg_schema sv) = Inr cypher_query"
    and "generate_fallback_answer sv q (get_kg_schema sv) ''Cypher'' = Inr fb"
  shows "\<exists>r. cypher_path sv q = Inr r \<and> pr_query r = cypher_query \<and> pr_count r = length (pr_data r) \<and>
     (\<forall>e. cypher_attempt sv q (get_kg_schema sv) cypher_query = Inl e \<longrightarrow>
        pr_data r = [] \<and> pr_answer r = fb \<and>
        pr_explanation r = ''Query failed: '' @ str_error e @ '' - using graph schema knowledge'')"
proof (cases "cypher_attempt sv q (get_kg_schema sv) cypher_query")
  case (Inl e)
  with assms show ?thesis
    by (simp add: cypher_path_def)
next
  case (Inr r)
  with assms cypher_attempt_result[OF Inr] show ?thesis
    by (simp add: cypher_path_def)
qed

text \<open>
  C3. The docstrings of \<open>dual_path_query\<close>, \<open>_sql_path\<close> and \<open>_cypher_path\<close> promise that an
  answer is always returned, and the claim that no exception reaches the caller. The calls
  that generate the SQL query, the Cypher query and the fallback answer are outside every
  \<open>try\<close>, so an exception of the text-generation service in any of them leaves
  \<open>dual_path_query\<close>: when the service is down for every call; when it generates the SQL
  query, the SQL path returns its result, and the generation of the Cypher query fails; and
  when it generates the queries, running the SQL query fails and the fallback answer cannot
  be generated.
\<close>

theorem dual_path_query_propagates:
  "generate_sql service_down ''How many employees are there?'' (get_sql_schema employees_info)
     = Inl (ServiceError ''503 Service Unavailable'') \<and>
   dual_path_query service_down employees_info ''How many employees are there?''
     = Inl (ServiceError ''503 Service Unavailable'') \<and>
   sql_path cypher_down employees_info ''How many employees are there?''
     = Inr \<lparr>pr_method = ''SQL'', pr_query = ''SELECT COUNT(*) FROM employees'',
            pr_data = [[(''COUNT(*)'', IntV 4)]], pr_count = 1, pr_answer = ''four'',
            pr_explanation = []\<rparr> \<and>
   translate_to_cypher cypher_down ''How many employees are there?'' (get_kg_schema cypher_down)
     = Inl (ServiceError ''503 Service Unavailable'') \<and>
   dual_path_query cypher_down employees_info ''How many employees are there?''
     = Inl (ServiceError ''503 Service Unavailable'') \<and>
   generate_sql fallback_down ''How many employees are there?'' (get_sql_schema employees_info)
     = Inr ''SELECT nothing'' \<and>
   sql_attempt fallback_down ''How many employees are there?'' (get_sql_schema employees_info)
       ''SELECT nothing''
     = Inl (DatabaseError ''no such column: nothing'') \<and>
   generate_fallback_answer fallback_down ''How many employees are there?''
       (get_sql_schema employees_info) ''SQL''
     = Inl (ServiceError ''503 Service Unavailable'') \<and>
   dual_path_query fallback_down employees_info ''How many employees are there?''
     = Inl (ServiceError ''503 Service Unavailable'')"
  by code_simp

text \<open>
  An exception of the text-generation service leaves \<open>dual_path_query\<close> from each of the
  unguarded calls, in either path.
\<close>

lemma dual_path_query_raises:
  "(generate_sql sv q (get_sql_schema info) = Inl e \<longrightarrow> dual_path_query sv info q = Inl e) \<and>
   (generate_sql sv q (get_sql_schema info) = Inr sql_query \<and>
    sql_attempt sv q (get_sql_schema info) sql_query = Inl e0 \<and>
    generate_fallback_answer sv q (get_sql_schema info) ''SQL'' = Inl e \<longrightarrow>
      dual_path_query sv info q = Inl e) \<and>
   (sql_path sv info q = Inr r \<and> translate_to_cypher sv q (get_kg_schema sv) = Inl e \<longrightarrow>
      dual_path_query sv info q = Inl e) \<and>
   (sql_path sv info q = Inr r \<and> translate_to_cypher sv q (get_kg_schema sv) = Inr cypher_query \<and>
    cypher_attempt sv q (get_kg_schema sv) cypher_query = Inl e0 \<and>
    generate_fallback_answer sv q (get_kg_schema sv) ''Cypher'' = Inl e \<longrightarrow>
      dual_path_query sv info q = Inl e)"
  by (simp add: dual_path_query_def sql_path_def cypher_path_def)

text \<open>
  What \<open>dual_path_query\<close> does guarantee. When the text-generation service returns the two
  generated queries and the two fallback answers, a result is returned for each path,
  whatever running the queries and synthesizing the answers do: each result holds the
  generated query, a count equal to the number of rows it holds, and an answer; when running
  the query or synthesizing the answer fails, the result holds no rows, the fallback answer
  and an explanation built from the failure.
\<close>

theorem dual_path_query_returns:
  "(generate_sql sv q (get_sql_schema info) = Inr sql_query \<and>
    translate_to_cypher sv q (get_kg_schema sv) = Inr cypher_query \<and>
    generate_fallback_answer sv q (get_sql_schema info) ''SQL'' = Inr fb_sql \<and>
    generate_fallback_answer sv q (get_kg_schema sv) ''Cypher'' = Inr fb_kg \<longrightarrow>
    (\<exists>sql_result cypher_result.
       dual_path_query sv info q = Inr (sql_result, cypher_result) \<and>
       pr_query sql_result = sql_query \<and> pr_count sql_result = length (pr_data sql_result) \<and>
       pr_query cypher_result = cypher_query \<and>
       pr_count cypher_result = length (pr_data cypher_result) \<and>
       (\<forall>e. sql_attempt sv q (get_sql_schema info) sql_query = Inl e \<longrightarrow>
          pr_data sql_result = [] \<and> pr_answer sql_result = fb_sql \<and>
          pr_explanation sql_result = ''Query failed: '' @ str_error e @ '' - using schema knowledge'') \<and>
       (\<forall>e. cypher_attempt sv q (get_kg_schema sv) cypher_query = Inl e \<longrightarrow>
          pr_data cypher_result = [] \<and> pr_answer cypher_result = fb_kg \<and>
          pr_explanation cypher_result
            = ''Query failed: '' @ str_error e @ '' - using graph schema knowledge''))) \<and>
   (generate_sql sv q (get_sql_schema info) = Inl e \<longrightarrow> dual_path_query sv info q = Inl e)"
proof (intro conjI impI)
  assume a: "generate_sql sv q (get_sql_schema info) = Inr sql_query \<and>
    translate_to_cypher sv q (get_kg_schema sv) = Inr cypher_query \<and>
    generate_fallback_answer sv q (get_sql_schema info) ''SQL'' = Inr fb_sql \<and>
    generate_fallback_answer sv q (get_kg_schema sv) ''Cypher'' = Inr fb_kg"
  from a sql_path_returns[of sv q info sql_query fb_sql]
  obtain r1 where r1: "sql_path sv info q = Inr r1" "pr_query r1 = sql_query"
    "pr_count r1 = length (pr_data r1)"
    "\<forall>e. sql_attempt sv q (get_sql_schema info) sql_query = Inl e \<longrightarrow>
        pr_data r1 = [] \<and> pr_answer r1 = fb_sql \<and>
        pr_explanation r1 = ''Query failed: '' @ str_error e @ '' - using schema knowledge''"
    by blast
  from a cypher_path_returns[of sv q cypher_query fb_kg]
  obtain r2 where r2: "cypher_path sv q = Inr r2" "pr_query r2 = cypher_query"
    "pr_count r2 = length (pr_data r2)"
    "\<forall>e. cypher_attempt sv q (get_kg_schema sv) cypher_query = Inl e \<longrightarrow>
        pr_data r2 = [] \<and> pr_answer r2 = fb_kg \<and>
        pr_explanation r2 = ''Query failed: '' @ str_error e @ '' - using graph schema knowledge''"
    by blast
  have "dual_path_query sv info q = Inr (r1, r2)"
    using r1(1) r2(1) by (simp add: dual_path_query_def)
  with r1 r2 show "\<exists>sql_result cypher_result.
       dual_path_query sv info q = Inr (sql_result, cypher_result) \<and>
       pr_query sql_result = sql_query \<and> pr_count sql_result = length (pr_data sql_result) \<and>
       pr_query cypher_result = cypher_query \<and>
       pr_count cypher_result = length (pr_data cypher_result) \<and>
       (\<forall>e. sql_attempt sv q (get_sql_schema info) sql_query = Inl e \<longrightarrow>
          pr_data sql_result = [] \<and> pr_answer sql_result = fb_sql \<and>
          pr_explanation sql_result = ''Query failed: '' @ str_error e @ '' - using schema knowledge'') \<and>
       (\<forall>e. cypher_attempt sv q (get_kg_schema sv) cypher_query = Inl e \<longrightarrow>
          pr_data cypher_result = [] \<and> pr_answer cypher_result = fb_kg \<and>
          pr_explanation cypher_result
            = ''Query failed: '' @ str_error e @ '' - using graph schema knowledge'')"
    by blast
next
  assume "generate_sql sv q (get_sql_schema info) = Inl e"
  then show "dual_path_query sv info q = Inl e"
    by (simp add: dual_path_query_def sql_path_def)
qed

theorem dual_path_query_returns_witness:
  "generate_sql stores_failing ''How many?'' (get_sql_schema employees_info) = Inr ''SELECT nothing'' \<and>
   sql_attempt stores_failing ''How many?'' (get_sql_schema employees_info) ''SELECT nothing''
     = Inl (DatabaseError ''no such column: nothing'') \<and>
   (\<exists>sql_result cypher_result.
      dual_path_query stores_failing employees_info ''How many?'' = Inr (sql_result, cypher_result) \<and>
      pr_query sql_result = ''SELECT nothing'' \<and> pr_answer sql_result = ''probably four'' \<and>
      pr_explanation sql_result = ''Query failed: no such column: nothing - using schema knowledge'' \<and>
      pr_query cypher_result = ''MATCH nothing'' \<and> pr_answer cypher_result = ''probably four'') \<and>
   generate_sql service_down ''How many?'' (get_sql_schema employees_info)
     = Inl (ServiceError ''503 Service Unavailable'') \<and>
   dual_path_query service_down employees_info ''How many?'' = Inl (ServiceError ''503 Service Unavailable'')"
proof -
  have 1: "generate_sql stores_failing ''How many?'' (get_sql_schema employees_info) = Inr ''SELECT nothing''"
    "translate_to_cypher stores_failing ''How many?'' (get_kg_schema stores_failing) = Inr ''MATCH nothing''"
    "generate_fallback_answer stores_failing ''How many?'' (get_sql_schema employees_info) ''SQL'' = Inr ''probably four''"
    "generate_fallback_answer stores_failing ''How many?'' (get_kg_schema stores_failing) ''Cypher'' = Inr ''probably four''"
    by (simp_all add: stores_failing_def)
  have 2: "sql_attempt stores_failing ''How many?'' (get_sql_schema employees_info) ''SELECT nothing''
     = Inl (DatabaseError ''no such column: nothing'')"
    by (simp add: sql_attempt_def stores_failing_def)
  have 3: "cypher_attempt stores_failing ''How many?'' (get_kg_schema stores_failing) ''MATCH nothing''
     = Inl (CypherError ''invalid input'')"
    by (simp add: cypher_attempt_def stores_failing_def)
  have 4: "generate_sql service_down ''How many?'' (get_sql_schema employees_info)
     = Inl (ServiceError ''503 Service Unavailable'')"
    by (simp add: service_down_def)
  from dual_path_query_returns[of stores_failing "''How many?''" employees_info "''SELECT nothing''"
      "''MATCH nothing''" "''probably four''" "''probably four''"] 1 2 3
  have "\<exists>sql_result cypher_result.
      dual_path_query stores_failing employees_info ''How many?'' = Inr (sql_result, cypher_result) \<and>
      pr_query sql_result = ''SELECT nothing'' \<and> pr_answer sql_result = ''probably four'' \<and>
      pr_explanation sql_result = ''Query failed: no such column: nothing - using schema knowledge'' \<and>
      pr_query cypher_result = ''MATCH nothing'' \<and> pr_answer cypher_result = ''probably four''"
    by (auto simp del: ex_simps)
  moreover from dual_path_query_returns[of service_down "''How many?''" employees_info _ _ _ _
      "ServiceError ''503 Service Unavailable''"] 4
  have "dual_path_query service_down employees_info ''How many?'' = Inl (ServiceError ''503 Service Unavailable'')"
    by simp
  ultimately show ?thesis
    using 1 2 4 by simp
qed

section \<open>Facts about the graph operations\<close>

lemma positions_iff:
  "j \<in> set (positions P i xs) \<longleftrightarrow> (\<exists>m<length xs. j = i + m \<and> P (xs ! m))"
proof (induction xs arbitrary: i)
  case Nil
  then show ?case by simp
next
  case (Cons x xs)
  have "(\<exists>m<length (x # xs). j = i + m \<and> P ((x # xs) ! m))
      \<longleftrightarrow> (j = i \<and> P x) \<or> (\<exists>m<length xs. j = Suc i + m \<and> P (xs ! m))"
    by (auto simp: less_Suc_eq_0_disj)
  then show ?case
    using Cons.IH[of "Suc i"] by auto
qed

lemma match_nodes_iff:
  "i \<in> set (match_nodes g label k v) \<longleftrightarrow>
     i < length (graph_nodes g) \<and> node_matches label k v (graph_nodes g ! i)"
  by (auto simp: match_nodes_def positions_iff)

lemma fold_merge_rel_nodes: "graph_nodes (fold merge_rel rs g) = graph_nodes g"
  by (induction rs arbitrary: g) (simp_all add: merge_rel_def)

lemma fold_merge_rel_rels: "set (graph_rels (fold merge_rel rs g)) = set (graph_rels g) \<union> set rs"
  by (induction rs arbitrary: g) (auto simp: merge_rel_def)

lemma merge_node_value_rels: "graph_rels (fst (merge_node_value g label k v)) = graph_rels g"
  by (simp add: merge_node_value_def)

lemma merge_node_value_nodes:
  "graph_nodes (fst (merge_node_value g label k v)) =
     graph_nodes g @ (if match_nodes g label k v = []
                      then [\<lparr>node_label = label, node_props = [(k, v)]\<rparr>] else [])"
  by (simp add: merge_node_value_def)

lemma set_node_props_rels: "graph_rels (set_node_props row i g) = graph_rels g"
  by (simp add: set_node_props_def)

lemma fold_set_node_props_rels: "graph_rels (fold (set_node_props row) ids g) = graph_rels g"
  by (induction ids arbitrary: g) (simp_all add: set_node_props_rels)

lemma employees_converted:
  "convert_all_tables integer_engine employees_fs empty_graph ''employees.db'' = Inr (employees_graph, employees_info)"
  by code_simp

section \<open>Sanitized names are kept by every operation\<close>

lemma safe_name_safe_label: "safe_name (safe_label s)"
  by (simp add: safe_name_def list_all_iff safe_label_chars)

lemma safe_name_append: "safe_name (a @ b) \<longleftrightarrow> safe_name a \<and> safe_name b"
  by (simp add: safe_name_def)

lemma safe_name_upper: "safe_name s \<Longrightarrow> safe_name (upper s)"
  by (simp add: safe_name_def upper_def list_all_iff upper_char_safe)

lemma safe_name_prefixes: "safe_name ''REFERENCES_''" "safe_name ''HAS_''" "safe_name ''Category''"
  "safe_name ''name''"
  by code_simp+

lemma safe_name_references: "safe_name (''REFERENCES_'' @ safe_label s)"
  using safe_name_prefixes(1) safe_name_safe_label safe_name_append by blast

lemma safe_name_has: "safe_name (''HAS_'' @ upper (safe_property s))"
  using safe_name_prefixes(2) safe_name_safe_label safe_name_append safe_name_upper safe_property_eq
  by metis






























section \<open>Categorical detection\<close>

lemma positions_append:
  "positions P i (xs @ ys) = positions P i xs @ positions P (i + length xs) ys"
  by (induction xs arbitrary: i) simp_all

lemma match_nodes_append:
  "graph_nodes g' = graph_nodes g @ new \<Longrightarrow>
   match_nodes g' label k v = match_nodes g label k v
      @ positions (node_matches label k v) (length (graph_nodes g)) new"
  by (simp add: match_nodes_def positions_append)

lemma merge_node_value_snd:
  assumes "v \<noteq> Null" "c \<in> set (snd (merge_node_value g label k v))"
  shows "c < length (graph_nodes (fst (merge_node_value g label k v))) \<and>
         node_matches label k v (graph_nodes (fst (merge_node_value g label k v)) ! c)"
proof (cases "match_nodes g label k v = []")
  case True
  with assms show ?thesis
    by (simp add: merge_node_value_def node_matches_def get_prop_def)
next
  case False
  with assms show ?thesis
    by (simp add: merge_node_value_def match_nodes_iff)
qed

lemma merge_node_value_nonempty: "snd (merge_node_value g label k v) \<noteq> []"
  by (simp add: merge_node_value_def)

lemma category_stmt_nodes:
  "graph_nodes (category_stmt g label k rel_name cat) =
     graph_nodes g @
       (if match_nodes g label k (TextV cat) \<noteq> [] \<and> match_nodes g ''Category'' ''name'' (TextV cat) = []
        then [category_node cat] else [])"
  by (simp add: category_stmt_def Let_def merge_node_value_def fold_merge_rel_nodes category_node_def
      split: prod.splits)

lemma category_stmt_rels:
  "set (graph_rels (category_stmt g label k rel_name cat)) =
     set (graph_rels g) \<union>
     {(n, rel_name, c) | n c. n \<in> set (match_nodes g label k (TextV cat)) \<and>
        c \<in> set (snd (merge_node_value g ''Category'' ''name'' (TextV cat)))}"
proof (cases "match_nodes g label k (TextV cat) = []")
  case True
  then show ?thesis
    by (simp add: category_stmt_def)
next
  case False
  obtain g1 cats where m: "merge_node_value g ''Category'' ''name'' (TextV cat) = (g1, cats)"
    by (cases "merge_node_value g ''Category'' ''name'' (TextV cat)")
  have "graph_rels g1 = graph_rels g"
    using merge_node_value_rels[of g "''Category''" "''name''" "TextV cat"] m by simp
  with False m show ?thesis
    by (auto simp: category_stmt_def Let_def fold_merge_rel_rels)
qed

lemma category_edge_append:
  "category_edge g label k rel_name r \<Longrightarrow> graph_nodes g' = graph_nodes g @ new \<Longrightarrow>
   category_edge g' label k rel_name r"
  by (auto simp: category_edge_def nth_append split: prod.splits)

lemma category_stmt_new_rels:
  assumes "r \<in> set (graph_rels (category_stmt g label k rel_name cat))" "r \<notin> set (graph_rels g)"
  shows "category_edge (category_stmt g label k rel_name cat) label k rel_name r"
proof -
  let ?g1 = "fst (merge_node_value g ''Category'' ''name'' (TextV cat))"
  from assms obtain n c where r: "r = (n, rel_name, c)"
    and n: "n \<in> set (match_nodes g label k (TextV cat))"
    and c: "c \<in> set (snd (merge_node_value g ''Category'' ''name'' (TextV cat)))"
    by (auto simp: category_stmt_rels)
  have nodes: "graph_nodes (category_stmt g label k rel_name cat) = graph_nodes ?g1"
    using n by (auto simp: category_stmt_nodes merge_node_value_nodes category_node_def)
  obtain new where new: "graph_nodes ?g1 = graph_nodes g @ new"
    by (simp add: merge_node_value_nodes)
  from n have n': "n < length (graph_nodes g)" "node_matches label k (TextV cat) (graph_nodes g ! n)"
    by (simp_all add: match_nodes_iff)
  from c have c': "c < length (graph_nodes ?g1)"
    "node_matches ''Category'' ''name'' (TextV cat) (graph_nodes ?g1 ! c)"
    using merge_node_value_snd[of "TextV cat" c g "''Category''" "''name''"] by simp_all
  from n' new have "graph_nodes ?g1 ! n = graph_nodes g ! n" "n < length (graph_nodes ?g1)"
    by (simp_all add: nth_append)
  with n' c' r nodes show ?thesis
    by (simp add: category_edge_def node_matches_def)
qed

lemma category_stmt_links:
  assumes "i \<in> set (match_nodes g label k (TextV cat))"
  shows "\<exists>c. (i, rel_name, c) \<in> set (graph_rels (category_stmt g label k rel_name cat)) \<and>
             category_edge (category_stmt g label k rel_name cat) label k rel_name (i, rel_name, c) \<and>
             get_prop (node_props (graph_nodes (category_stmt g label k rel_name cat) ! c)) ''name''
               = TextV cat"
proof -
  let ?g' = "category_stmt g label k rel_name cat"
  let ?g1 = "fst (merge_node_value g ''Category'' ''name'' (TextV cat))"
  obtain c where c: "c \<in> set (snd (merge_node_value g ''Category'' ''name'' (TextV cat)))"
    using merge_node_value_nonempty[of g "''Category''" "''name''" "TextV cat"]
    by (cases "snd (merge_node_value g ''Category'' ''name'' (TextV cat))") auto
  with assms have in_rels: "(i, rel_name, c) \<in> set (graph_rels ?g')"
    by (auto simp: category_stmt_rels)
  have nodes: "graph_nodes ?g' = graph_nodes ?g1"
    using assms by (auto simp: category_stmt_nodes merge_node_value_nodes category_node_def)
  obtain new where new: "graph_nodes ?g1 = graph_nodes g @ new"
    by (simp add: merge_node_value_nodes)
  from assms have n': "i < length (graph_nodes g)" "node_matches label k (TextV cat) (graph_nodes g ! i)"
    by (simp_all add: match_nodes_iff)
  from c have c': "c < length (graph_nodes ?g1)"
    "node_matches ''Category'' ''name'' (TextV cat) (graph_nodes ?g1 ! c)"
    using merge_node_value_snd[of "TextV cat" c g "''Category''" "''name''"] by simp_all
  from n' new have "graph_nodes ?g1 ! i = graph_nodes g ! i" "i < length (graph_nodes ?g1)"
    by (simp_all add: nth_append)
  with n' c' nodes have "category_edge ?g' label k rel_name (i, rel_name, c)"
    "get_prop (node_props (graph_nodes ?g' ! c)) ''name'' = TextV cat"
    by (simp_all add: category_edge_def node_matches_def)
  with in_rels show ?thesis
    by blast
qed

lemma category_node_matches:
  "node_matches ''Category'' ''name'' (TextV cat) (category_node cat)"
  by (simp add: node_matches_def category_node_def get_prop_def)

lemma category_values_nodes:
  "\<exists>new. graph_nodes (category_values g label col rel_name vals) = graph_nodes g @ new \<and>
      length new \<le> length (filter (\<lambda>v. strip (py_str v) \<noteq> []) vals) \<and>
      distinct new \<and>
      (\<forall>n\<in>set new. \<exists>v\<in>set vals. strip (py_str v) \<noteq> [] \<and> n = category_node (py_str v)) \<and>
      (\<forall>cat. category_node cat \<in> set new \<longrightarrow> match_nodes g ''Category'' ''name'' (TextV cat) = [])"
proof (induction vals arbitrary: g)
  case Nil
  then show ?case by simp
next
  case (Cons a vals)
  show ?case
  proof (cases "strip (py_str a) \<noteq> []")
    case False
    with Cons.IH[of g] show ?thesis
      by auto
  next
    case True
    let ?g1 = "category_stmt g label (safe_property col) rel_name (py_str a)"
    let ?e1 = "if match_nodes g label (safe_property col) (TextV (py_str a)) \<noteq> [] \<and>
        match_nodes g ''Category'' ''name'' (TextV (py_str a)) = []
        then [category_node (py_str a)] else []"
    have g1: "graph_nodes ?g1 = graph_nodes g @ ?e1"
      by (rule category_stmt_nodes)
    from Cons.IH[of ?g1] obtain new where new:
      "graph_nodes (category_values ?g1 label col rel_name vals) = graph_nodes ?g1 @ new"
      "length new \<le> length (filter (\<lambda>v. strip (py_str v) \<noteq> []) vals)"
      "distinct new"
      "\<forall>n\<in>set new. \<exists>v\<in>set vals. strip (py_str v) \<noteq> [] \<and> n = category_node (py_str v)"
      "\<forall>cat. category_node cat \<in> set new \<longrightarrow> match_nodes ?g1 ''Category'' ''name'' (TextV cat) = []"
      by blast
    have sub: "\<And>cat. match_nodes ?g1 ''Category'' ''name'' (TextV cat) = [] \<Longrightarrow>
        match_nodes g ''Category'' ''name'' (TextV cat) = []"
      using match_nodes_append[OF g1] by simp
    have fresh: "?e1 = [category_node (py_str a)] \<Longrightarrow> category_node (py_str a) \<notin> set new"
    proof
      assume e: "?e1 = [category_node (py_str a)]" and "category_node (py_str a) \<in> set new"
      then have "match_nodes ?g1 ''Category'' ''name'' (TextV (py_str a)) = []"
        using new(5) by blast
      moreover have "match_nodes ?g1 ''Category'' ''name'' (TextV (py_str a)) \<noteq> []"
        using match_nodes_append[OF g1, of "''Category''" "''name''" "TextV (py_str a)"] e
        by (simp add: category_node_matches)
      ultimately show False
        by contradiction
    qed
    have 1: "graph_nodes (category_values g label col rel_name (a # vals)) = graph_nodes g @ (?e1 @ new)"
      using True new(1) g1 by simp
    have 2: "length (?e1 @ new) \<le> length (filter (\<lambda>v. strip (py_str v) \<noteq> []) (a # vals))"
      using True new(2) by simp
    have 3: "distinct (?e1 @ new)"
      using new(3) fresh by (simp split: if_splits)
    have 4: "\<forall>n\<in>set (?e1 @ new). \<exists>v\<in>set (a # vals). strip (py_str v) \<noteq> [] \<and> n = category_node (py_str v)"
      using True new(4) by (auto split: if_splits)
    have 5: "\<forall>cat. category_node cat \<in> set (?e1 @ new) \<longrightarrow> match_nodes g ''Category'' ''name'' (TextV cat) = []"
      using new(5) sub by (auto simp: category_node_def split: if_splits)
    from 1 2 3 4 5 show ?thesis
      by blast
  qed
qed

lemma category_values_rels_mono:
  "set (graph_rels g) \<subseteq> set (graph_rels (category_values g label col rel_name vals))"
proof (induction vals arbitrary: g)
  case Nil
  then show ?case by simp
next
  case (Cons a vals)
  have "set (graph_rels g) \<subseteq> set (graph_rels (category_stmt g label (safe_property col) rel_name (py_str a)))"
    by (auto simp: category_stmt_rels)
  with Cons.IH show ?case
    by (simp del: fold_simps) blast
qed

lemma category_values_new_rels:
  "r \<in> set (graph_rels (category_values g label col rel_name vals)) \<Longrightarrow> r \<notin> set (graph_rels g) \<Longrightarrow>
   category_edge (category_values g label col rel_name vals) label (safe_property col) rel_name r"
proof (induction vals arbitrary: g)
  case Nil
  then show ?case by simp
next
  case (Cons a vals)
  show ?case
  proof (cases "strip (py_str a) \<noteq> []")
    case False
    with Cons show ?thesis
      by simp
  next
    case True
    let ?g1 = "category_stmt g label (safe_property col) rel_name (py_str a)"
    have eq: "category_values g label col rel_name (a # vals) = category_values ?g1 label col rel_name vals"
      using True by simp
    show ?thesis
    proof (cases "r \<in> set (graph_rels ?g1)")
      case False
      with Cons.IH[of ?g1] Cons.prems(1) eq show ?thesis
        by simp
    next
      case True
      then have "category_edge ?g1 label (safe_property col) rel_name r"
        using Cons.prems(2) by (rule category_stmt_new_rels)
      moreover obtain new where
        "graph_nodes (category_values ?g1 label col rel_name vals) = graph_nodes ?g1 @ new"
        using category_values_nodes[of ?g1 label col rel_name vals] by blast
      ultimately show ?thesis
        unfolding eq by (rule category_edge_append)
    qed
  qed
qed

lemma category_values_links:
  "v \<in> set vals \<Longrightarrow> strip (py_str v) \<noteq> [] \<Longrightarrow>
   i \<in> set (match_nodes g label (safe_property col) (TextV (py_str v))) \<Longrightarrow>
   \<exists>c. (i, rel_name, c) \<in> set (graph_rels (category_values g label col rel_name vals)) \<and>
       c < length (graph_nodes (category_values g label col rel_name vals)) \<and>
       node_label (graph_nodes (category_values g label col rel_name vals) ! c) = ''Category'' \<and>
       get_prop (node_props (graph_nodes (category_values g label col rel_name vals) ! c)) ''name''
         = TextV (py_str v)"
proof (induction vals arbitrary: g)
  case Nil
  then show ?case by simp
next
  case (Cons a vals)
  let ?g1 = "category_stmt g label (safe_property col) rel_name (py_str a)"
  show ?case
  proof (cases "v = a")
    case True
    let ?g' = "category_values ?g1 label col rel_name vals"
    have eq: "category_values g label col rel_name (a # vals) = ?g'"
      using True Cons.prems(2) by simp
    from category_stmt_links[of i g label "safe_property col" "py_str a" rel_name] Cons.prems(3) True
    obtain c where c: "(i, rel_name, c) \<in> set (graph_rels ?g1)"
      "category_edge ?g1 label (safe_property col) rel_name (i, rel_name, c)"
      "get_prop (node_props (graph_nodes ?g1 ! c)) ''name'' = TextV (py_str a)"
      by blast
    obtain new where new: "graph_nodes ?g' = graph_nodes ?g1 @ new"
      using category_values_nodes[of ?g1 label col rel_name vals] by blast
    from c(2) have lt: "c < length (graph_nodes ?g1)" "node_label (graph_nodes ?g1 ! c) = ''Category''"
      by (simp_all add: category_edge_def)
    with new have "graph_nodes ?g' ! c = graph_nodes ?g1 ! c" "c < length (graph_nodes ?g')"
      by (simp_all add: nth_append)
    moreover have "(i, rel_name, c) \<in> set (graph_rels ?g')"
      using c(1) category_values_rels_mono[of ?g1 label col rel_name vals] by blast
    ultimately show ?thesis
      unfolding eq using c(3) lt(2) True by auto
  next
    case False
    with Cons.prems(1) have v: "v \<in> set vals"
      by simp
    show ?thesis
    proof (cases "strip (py_str a) \<noteq> []")
      case False
      with Cons.IH[OF v Cons.prems(2,3)] show ?thesis
        by simp
    next
      case True
      have "graph_nodes ?g1 = graph_nodes g @
        (if match_nodes g label (safe_property col) (TextV (py_str a)) \<noteq> [] \<and>
            match_nodes g ''Category'' ''name'' (TextV (py_str a)) = []
         then [category_node (py_str a)] else [])"
        by (rule category_stmt_nodes)
      from match_nodes_append[OF this] Cons.prems(3)
      have "i \<in> set (match_nodes ?g1 label (safe_property col) (TextV (py_str v)))"
        by simp
      from Cons.IH[OF v Cons.prems(2) this] True show ?thesis
        by simp
    qed
  qed
qed

lemma categorical_columns_find:
  "categorical_columns g df label cols =
     (case find (\<lambda>c. c \<in> set (df_columns df)) cols of
        None \<Rightarrow> g
      | Some col \<Rightarrow>
          category_values g label col (''HAS_'' @ upper (safe_property col))
            (take 20 (unique (dropna (df_column df col)))))"
  by (induction cols) (simp_all add: Let_def)

lemma category_values_skip_blank:
  "category_values g label col rel_name (filter (\<lambda>v. strip (py_str v) \<noteq> []) vals)
     = category_values g label col rel_name vals"
  by (induction vals arbitrary: g) simp_all

lemma department_names:
  "safe_property ''department'' = ''department''"
  "''HAS_'' @ upper (safe_property ''department'') = ''HAS_DEPARTMENT''"
  "''HAS_'' @ upper ''department'' = ''HAS_DEPARTMENT''"
  by code_simp+

text \<open>
  C6, as the claim states it, fails on the code: the first twenty distinct non-null values
  are taken before the blank ones are passed over. The shops table has fifty distinct values
  in its city column, and the third is a blank: the conversion leaves nineteen category
  nodes, not twenty.
\<close>

theorem fifty_values_nineteen_categories:
  "length (unique (dropna (df_column (read_table shops) ''city''))) = 50 \<and>
   (case convert_all_tables integer_engine shops_fs empty_graph ''shops.db'' of
      Inl e \<Rightarrow> None
    | Inr (g, info) \<Rightarrow> Some (category_count g)) = Some 19"
  by code_simp

text \<open>
  C6, amended. For every table, categorical detection processes at most one column, the
  first name of the priority list that is present among the columns of the table. Of that
  column it takes the first twenty distinct non-null values and passes over the blank ones;
  for each remaining value the statement is run once. The run adds at most one node per
  such value, so never more than twenty, distinct category nodes named by these values; it
  adds only \<open>HAS_<COLUMN>\<close> edges, each from a node of the table to a category node named
  by the value the node carries; and every node of the table that carries one of the values
  as a text has such an edge to a category node of that name.
\<close>

theorem categorical_detection_bounded:
  "(find (\<lambda>c. c \<in> set (df_columns df)) categorical_cols = None \<longrightarrow>
      categorical_columns g df label categorical_cols = g) \<and>
   (find (\<lambda>c. c \<in> set (df_columns df)) categorical_cols = Some col \<longrightarrow>
      categorical_columns g df label categorical_cols
        = category_values g label col (''HAS_'' @ upper (safe_property col))
            (category_values_used df col) \<and>
      set (category_values_used df col) \<subseteq> set (take 20 (unique (dropna (df_column df col)))) \<and>
      length (category_values_used df col) \<le> 20 \<and>
      (\<exists>new. graph_nodes (categorical_columns g df label categorical_cols) = graph_nodes g @ new \<and>
         length new \<le> length (category_values_used df col) \<and> distinct new \<and>
         (\<forall>n\<in>set new. \<exists>v\<in>set (category_values_used df col). n = category_node (py_str v))) \<and>
      set (graph_rels g) \<subseteq> set (graph_rels (categorical_columns g df label categorical_cols)) \<and>
      (\<forall>r\<in>set (graph_rels (categorical_columns g df label categorical_cols)) - set (graph_rels g).
         category_edge (categorical_columns g df label categorical_cols) label (safe_property col)
           (''HAS_'' @ upper (safe_property col)) r) \<and>
      (\<forall>v\<in>set (category_values_used df col).
       \<forall>i\<in>set (match_nodes g label (safe_property col) (TextV (py_str v))).
         \<exists>c. (i, ''HAS_'' @ upper (safe_property col), c)
                \<in> set (graph_rels (categorical_columns g df label categorical_cols)) \<and>
             c < length (graph_nodes (categorical_columns g df label categorical_cols)) \<and>
             node_label (graph_nodes (categorical_columns g df label categorical_cols) ! c) = ''Category'' \<and>
             get_prop (node_props (graph_nodes (categorical_columns g df label categorical_cols) ! c)) ''name''
               = TextV (py_str v)))"
proof (intro conjI impI)
  assume "find (\<lambda>c. c \<in> set (df_columns df)) categorical_cols = None"
  then show "categorical_columns g df label categorical_cols = g"
    by (simp add: categorical_columns_find)
next
  assume f: "find (\<lambda>c. c \<in> set (df_columns df)) categorical_cols = Some col"
  let ?rel = "''HAS_'' @ upper (safe_property col)"
  let ?used = "category_values_used df col"
  let ?g' = "categorical_columns g df label categorical_cols"
  have eq: "?g' = category_values g label col ?rel ?used"
    using f by (simp add: categorical_columns_find category_values_used_def category_values_skip_blank)
  show "?g' = category_values g label col ?rel ?used"
    by (rule eq)
  show "set ?used \<subseteq> set (take 20 (unique (dropna (df_column df col))))"
    by (auto simp: category_values_used_def)
  have "length ?used \<le> length (take 20 (unique (dropna (df_column df col))))"
    unfolding category_values_used_def by (rule length_filter_le)
  then show "length ?used \<le> 20"
    by simp
  from category_values_nodes[of g label col ?rel ?used] obtain new where new:
    "graph_nodes (category_values g label col ?rel ?used) = graph_nodes g @ new"
    "length new \<le> length (filter (\<lambda>v. strip (py_str v) \<noteq> []) ?used)" "distinct new"
    "\<forall>n\<in>set new. \<exists>v\<in>set ?used. strip (py_str v) \<noteq> [] \<and> n = category_node (py_str v)"
    by blast
  have "length new \<le> length ?used"
    using new(2) length_filter_le by (rule le_trans)
  with new(1,3,4) show "\<exists>new. graph_nodes ?g' = graph_nodes g @ new \<and> length new \<le> length ?used \<and>
      distinct new \<and> (\<forall>n\<in>set new. \<exists>v\<in>set ?used. n = category_node (py_str v))"
    unfolding eq by (intro exI[of _ new]) auto
  show "set (graph_rels g) \<subseteq> set (graph_rels ?g')"
    unfolding eq by (rule category_values_rels_mono)
  show "\<forall>r\<in>set (graph_rels ?g') - set (graph_rels g). category_edge ?g' label (safe_property col) ?rel r"
    unfolding eq using category_values_new_rels by blast
  show "\<forall>v\<in>set ?used. \<forall>i\<in>set (match_nodes g label (safe_property col) (TextV (py_str v))).
         \<exists>c. (i, ?rel, c) \<in> set (graph_rels ?g') \<and> c < length (graph_nodes ?g') \<and>
             node_label (graph_nodes ?g' ! c) = ''Category'' \<and>
             get_prop (node_props (graph_nodes ?g' ! c)) ''name'' = TextV (py_str v)"
  proof (intro ballI)
    fix v i
    assume v: "v \<in> set ?used" and i: "i \<in> set (match_nodes g label (safe_property col) (TextV (py_str v)))"
    from v have "strip (py_str v) \<noteq> []"
      by (simp add: category_values_used_def)
    from category_values_links[OF v this i, of ?rel]
    show "\<exists>c. (i, ?rel, c) \<in> set (graph_rels ?g') \<and> c < length (graph_nodes ?g') \<and>
             node_label (graph_nodes ?g' ! c) = ''Category'' \<and>
             get_prop (node_props (graph_nodes ?g' ! c)) ''name'' = TextV (py_str v)"
      unfolding eq .
  qed
qed

theorem categorical_detection_bounded_witness:
  "find (\<lambda>c. c \<in> set (df_columns (read_table employees))) categorical_cols = Some ''department'' \<and>
   category_values_used (read_table employees) ''department'' = [TextV ''Sales'', TextV ''HR''] \<and>
   1 \<in> set (match_nodes employees_nodes ''employees'' (safe_property ''department'') (TextV ''Sales'')) \<and>
   (\<exists>new. graph_nodes (categorical_columns employees_nodes (read_table employees) ''employees'' categorical_cols)
        = graph_nodes employees_nodes @ new \<and> length new \<le> 2) \<and>
   (\<exists>c. (1, ''HAS_DEPARTMENT'', c)
          \<in> set (graph_rels (categorical_columns employees_nodes (read_table employees) ''employees''
                 categorical_cols)))"
proof -
  have f: "find (\<lambda>c. c \<in> set (df_columns (read_table employees))) categorical_cols = Some ''department''"
    by code_simp
  have used: "category_values_used (read_table employees) ''department'' = [TextV ''Sales'', TextV ''HR'']"
    by code_simp
  have m: "1 \<in> set (match_nodes employees_nodes ''employees'' (safe_property ''department'') (TextV ''Sales''))"
    by code_simp
  note inst = categorical_detection_bounded[of "read_table employees" employees_nodes "''employees''"
      "''department''"]
  from inst f used
  have 1: "\<exists>new. graph_nodes (categorical_columns employees_nodes (read_table employees) ''employees'' categorical_cols)
        = graph_nodes employees_nodes @ new \<and> length new \<le> 2"
    by auto
  from inst f used m
  have 2: "\<exists>c. (1, ''HAS_'' @ upper (safe_property ''department''), c)
          \<in> set (graph_rels (categorical_columns employees_nodes (read_table employees) ''employees''
                 categorical_cols))"
    by (metis list.set_intros(1) py_str.simps(3))
  then have "\<exists>c. (1, ''HAS_DEPARTMENT'', c)
          \<in> set (graph_rels (categorical_columns employees_nodes (read_table employees) ''employees''
                 categorical_cols))"
    by (simp only: department_names)
  with f used m 1 show ?thesis
    by blast
qed

section \<open>A source with a single table\<close>

lemma merge_rows_rels:
  "merge_rows label safe_pk g rows = Inr g' \<Longrightarrow> graph_rels g' = graph_rels g"
proof (induction rows arbitrary: g)
  case Nil
  then show ?case by simp
next
  case (Cons row rows)
  from Cons.prems obtain g1 where g1: "merge_row label safe_pk g row = Inr g1"
    "merge_rows label safe_pk g1 rows = Inr g'"
    by (auto split: sum.splits)
  from g1(1) have "graph_rels g1 = graph_rels g"
    by (auto simp: merge_row_def merge_node_def merge_node_value_def fold_set_node_props_rels
        set_node_props_rels split: if_splits)
  with Cons.IH[OF g1(2)] show ?case
    by simp
qed

lemma create_base_nodes_rels:
  "create_base_nodes conn g tname label pk = Inr (g', c) \<Longrightarrow> graph_rels g' = graph_rels g"
  by (auto simp: create_base_nodes_def Let_def split: sum.splits dest: merge_rows_rels)

lemma select_all_single: "select_all [t] (table_name t) = Inr (read_table t)"
  by (simp add: select_all_def find_table_def read_table_def)

lemma convert_single_table:
  assumes "fs db_path = Some (SqliteFile [t])" "\<not> like_sqlite (table_name t)"
    and "convert_all_tables sqlite fs g0 db_path = Inr (g, info)"
  shows "\<exists>g1 pk c. create_base_nodes [t] empty_graph (table_name t) (safe_label (table_name t)) pk
             = Inr (g1, c) \<and>
           g = categorical_columns g1 (read_table t) (safe_label (table_name t)) categorical_cols"
proof -
  from assms obtain g1 pk c where
    "create_base_nodes [t] empty_graph (table_name t) (safe_label (table_name t)) pk = Inr (g1, c)"
    "g = categorical_columns g1 (read_table t) (safe_label (table_name t)) categorical_cols"
    by (auto simp: convert_all_tables_def ingest_all_tables_def connect_def Let_def analyze_table_def
        safe_cleanup_def create_all_fk_relationships_def create_categorical_relationships_def
        select_all_single split: sum.splits option.splits prod.splits)
  then show ?thesis
    by blast
qed

lemma convert_hidden_table:
  assumes "fs db_path = Some (SqliteFile [t])" "like_sqlite (table_name t)"
    and "convert_all_tables sqlite fs g0 db_path = Inr (g, info)"
  shows "g = empty_graph"
  using assms
  by (auto simp: convert_all_tables_def ingest_all_tables_def connect_def Let_def
      safe_cleanup_def create_all_fk_relationships_def create_categorical_relationships_def)

lemma department_first:
  "''department'' \<in> set cols \<Longrightarrow> find (\<lambda>c. c \<in> set cols) categorical_cols = Some ''department''"
  by (simp add: categorical_cols_def)

lemma category_node_no_property:
  "k \<noteq> ''name'' \<Longrightarrow> \<not> node_matches label k v (category_node cat)"
  by (auto simp: node_matches_def category_node_def get_prop_def)

text \<open>
  C1, as the claim states it, fails on the code: the pair loop skips the pair of a table
  with itself, so a column of a table is never taken as a reference to that same table. In
  the employees table every manager is an employee, and the conversion creates the four
  \<open>HAS_DEPARTMENT\<close> edges and no \<open>REFERENCES_MANAGER_ID\<close> edge.
\<close>

theorem employees_has_no_reference_edge:
  "spec_name_accepts [employees] (read_table employees) ''employees'' ''emp_id'' ''manager_id'' \<and>
   convert_all_tables integer_engine employees_fs empty_graph ''employees.db'' = Inr (employees_graph, employees_info) \<and>
   rels_of_type ''REFERENCES_MANAGER_ID'' employees_graph = [] \<and>
   graph_rels employees_graph = rels_of_type ''HAS_DEPARTMENT'' employees_graph"
  by code_simp

text \<open>
  C1, amended. The pair loop passes over the pair of a table with itself, so no table is
  examined as a reference target of itself. For a source that consists of one table with a
  department column, whatever the manager ids are, every relationship that
  \<open>convert_all_tables\<close> creates is a \<open>HAS_DEPARTMENT\<close> edge from a node of the table to a
  category node named by the department of that node, so no \<open>REFERENCES_MANAGER_ID\<close> edge is
  created; and every node of the table whose department is one of the non-blank values
  among the first twenty distinct ones has such an edge to the category node of that
  department.
\<close>

theorem single_table_conversion:
  "fk_targets sqlite conn schemas df s si ((s, ti) # rest) (g', n)
     = fk_targets sqlite conn schemas df s si rest (g', n) \<and>
   (fs db_path = Some (SqliteFile [t]) \<and> ''department'' \<in> set (map col_name (table_columns t)) \<and>
    convert_all_tables sqlite fs g0 db_path = Inr (g, info) \<longrightarrow>
      (\<forall>r\<in>set (graph_rels g).
         category_edge g (safe_label (table_name t)) ''department'' ''HAS_DEPARTMENT'' r) \<and>
      (\<forall>v\<in>set (category_values_used (read_table t) ''department'').
       \<forall>i<length (graph_nodes g).
         node_matches (safe_label (table_name t)) ''department'' (TextV (py_str v)) (graph_nodes g ! i) \<longrightarrow>
         (\<exists>c. (i, ''HAS_DEPARTMENT'', c) \<in> set (graph_rels g) \<and> c < length (graph_nodes g) \<and>
              node_label (graph_nodes g ! c) = ''Category'' \<and>
              get_prop (node_props (graph_nodes g ! c)) ''name'' = TextV (py_str v))))"
proof (rule conjI)
  show "fk_targets sqlite conn schemas df s si ((s, ti) # rest) (g', n)
     = fk_targets sqlite conn schemas df s si rest (g', n)"
    by simp
next
  show "fs db_path = Some (SqliteFile [t]) \<and> ''department'' \<in> set (map col_name (table_columns t)) \<and>
    convert_all_tables sqlite fs g0 db_path = Inr (g, info) \<longrightarrow>
      (\<forall>r\<in>set (graph_rels g).
         category_edge g (safe_label (table_name t)) ''department'' ''HAS_DEPARTMENT'' r) \<and>
      (\<forall>v\<in>set (category_values_used (read_table t) ''department'').
       \<forall>i<length (graph_nodes g).
         node_matches (safe_label (table_name t)) ''department'' (TextV (py_str v)) (graph_nodes g ! i) \<longrightarrow>
         (\<exists>c. (i, ''HAS_DEPARTMENT'', c) \<in> set (graph_rels g) \<and> c < length (graph_nodes g) \<and>
              node_label (graph_nodes g ! c) = ''Category'' \<and>
              get_prop (node_props (graph_nodes g ! c)) ''name'' = TextV (py_str v)))"
  proof (intro impI, elim conjE)
    assume fs: "fs db_path = Some (SqliteFile [t])"
      and dep: "''department'' \<in> set (map col_name (table_columns t))"
      and conv: "convert_all_tables sqlite fs g0 db_path = Inr (g, info)"
    let ?label = "safe_label (table_name t)"
    let ?used = "category_values_used (read_table t) ''department''"
    show "(\<forall>r\<in>set (graph_rels g). category_edge g ?label ''department'' ''HAS_DEPARTMENT'' r) \<and>
       (\<forall>v\<in>set ?used. \<forall>i<length (graph_nodes g).
          node_matches ?label ''department'' (TextV (py_str v)) (graph_nodes g ! i) \<longrightarrow>
          (\<exists>c. (i, ''HAS_DEPARTMENT'', c) \<in> set (graph_rels g) \<and> c < length (graph_nodes g) \<and>
               node_label (graph_nodes g ! c) = ''Category'' \<and>
               get_prop (node_props (graph_nodes g ! c)) ''name'' = TextV (py_str v)))"
    proof (cases "like_sqlite (table_name t)")
      case True
      with fs conv have "g = empty_graph"
        using convert_hidden_table by blast
      then show ?thesis
        by (simp add: empty_graph_def)
    next
      case False
      with fs conv obtain g1 pk c where
        g1: "create_base_nodes [t] empty_graph (table_name t) ?label pk = Inr (g1, c)"
        and g: "g = categorical_columns g1 (read_table t) ?label categorical_cols"
        using convert_single_table by blast
      have rels1: "graph_rels g1 = []"
        using create_base_nodes_rels[OF g1] by (simp add: empty_graph_def)
      have "find (\<lambda>c. c \<in> set (df_columns (read_table t))) categorical_cols = Some ''department''"
        using dep by (intro department_first) (simp add: read_table_def)
      then have eq: "g = category_values g1 ?label ''department'' ''HAS_DEPARTMENT'' ?used"
        unfolding g categorical_columns_find
        by (simp only: option.case department_names category_values_used_def category_values_skip_blank)
      have edges: "\<forall>r\<in>set (graph_rels g). category_edge g ?label ''department'' ''HAS_DEPARTMENT'' r"
      proof
        fix r assume "r \<in> set (graph_rels g)"
        then show "category_edge g ?label ''department'' ''HAS_DEPARTMENT'' r"
          using category_values_new_rels[of r g1 ?label "''department''" "''HAS_DEPARTMENT''" ?used]
            rels1 unfolding eq by (simp add: department_names)
      qed
      obtain new where new: "graph_nodes g = graph_nodes g1 @ new"
        "\<forall>n\<in>set new. \<exists>v\<in>set ?used. strip (py_str v) \<noteq> [] \<and> n = category_node (py_str v)"
        using category_values_nodes[of g1 ?label "''department''" "''HAS_DEPARTMENT''" ?used]
        unfolding eq by blast
      have links: "\<exists>c. (i, ''HAS_DEPARTMENT'', c) \<in> set (graph_rels g) \<and> c < length (graph_nodes g) \<and>
               node_label (graph_nodes g ! c) = ''Category'' \<and>
               get_prop (node_props (graph_nodes g ! c)) ''name'' = TextV (py_str v)"
        if v: "v \<in> set ?used" and i: "i < length (graph_nodes g)"
          and m: "node_matches ?label ''department'' (TextV (py_str v)) (graph_nodes g ! i)" for v i
      proof -
        have "i < length (graph_nodes g1)"
        proof (rule ccontr)
          assume "\<not> i < length (graph_nodes g1)"
          then have "graph_nodes g ! i \<in> set new"
            using i new(1) by (simp add: nth_append)
          then obtain cat where "graph_nodes g ! i = category_node cat"
            using new(2) by blast
          with m show False
            using category_node_no_property[of "''department''"] by simp
        qed
        then have "i \<in> set (match_nodes g1 ?label (safe_property ''department'') (TextV (py_str v)))"
          using m new(1) by (simp add: match_nodes_iff nth_append department_names)
        moreover have "strip (py_str v) \<noteq> []"
          using v by (simp add: category_values_used_def)
        ultimately show ?thesis
          using category_values_links[OF v, of i g1 ?label "''department''" "''HAS_DEPARTMENT''"]
          unfolding eq by simp
      qed
      from edges links show ?thesis
        by blast
    qed
  qed
qed

theorem single_table_conversion_witness:
  "employees_fs ''employees.db'' = Some (SqliteFile [employees]) \<and>
   ''department'' \<in> set (map col_name (table_columns employees)) \<and>
   convert_all_tables integer_engine employees_fs empty_graph ''employees.db'' = Inr (employees_graph, employees_info) \<and>
   list_all (category_edge employees_graph ''employees'' ''department'' ''HAS_DEPARTMENT'')
     (graph_rels employees_graph) \<and>
   (\<exists>c. (2, ''HAS_DEPARTMENT'', c) \<in> set (graph_rels employees_graph) \<and>
        get_prop (node_props (graph_nodes employees_graph ! c)) ''name'' = TextV ''HR'')"
proof -
  have fs: "employees_fs ''employees.db'' = Some (SqliteFile [employees])"
    by (simp add: employees_fs_def)
  have dep: "''department'' \<in> set (map col_name (table_columns employees))"
    by code_simp
  have lab: "safe_label (table_name employees) = ''employees''"
    by code_simp
  have used: "TextV ''HR'' \<in> set (category_values_used (read_table employees) ''department'')"
    by code_simp
  have node: "2 < length (graph_nodes employees_graph)"
    "node_matches ''employees'' ''department'' (TextV (py_str (TextV ''HR''))) (graph_nodes employees_graph ! 2)"
    by code_simp+
  note inst = single_table_conversion[where fs = employees_fs and db_path = "''employees.db''"
      and t = employees and ?g0.0 = empty_graph and g = employees_graph and info = employees_info]
  from inst fs dep employees_converted lab
  have 1: "\<forall>r\<in>set (graph_rels employees_graph).
      category_edge employees_graph ''employees'' ''department'' ''HAS_DEPARTMENT'' r"
    by simp
  from inst fs dep employees_converted lab used node
  have 2: "\<exists>c. (2, ''HAS_DEPARTMENT'', c) \<in> set (graph_rels employees_graph) \<and>
        get_prop (node_props (graph_nodes employees_graph ! c)) ''name'' = TextV ''HR''"
    by (metis py_str.simps(3))
  from fs dep employees_converted 1 2 show ?thesis
    by (simp add: list_all_iff)
qed

end
